theory Spec2Isabelle
  imports Complex_Main
begin

section \<open>Errors and Python list slicing\<close>

text \<open>
  The exceptions the modelled functions can raise. Quantities are modelled as real
  numbers in one consistent system of units (lengths in au, masses in solar masses), and
  the floating-point rounding of the source is not modelled. Where the source computes
  with numbers outside the domain on which real arithmetic follows it (a non-positive
  mass or gravitational constant, a division by zero, the square root of a negative
  number), the model returns \<open>OutsideModel\<close>, which is no exception of the source.
\<close>

datatype error = ZeroDivisionError | IndexError | KeyError | ValueError | OutsideModel

text \<open>
  \<open>xs[lo:hi]\<close> of Python: a negative bound counts from the end, and every bound is
  clamped to the list.
\<close>

definition slice :: "'a list \<Rightarrow> int \<Rightarrow> int \<Rightarrow> 'a list" where
  "slice xs lo hi =
     (let n = int (length xs);
          l = (if lo < 0 then max 0 (lo + n) else min lo n);
          h = (if hi < 0 then max 0 (hi + n) else min hi n)
      in take (nat (h - l)) (drop (nat l) xs))"

section \<open>The disk pool partitioner\<close>

text \<open>
  \<open>pool_disks(disks, N_cores)\<close>. The loop \<open>for i in range(N_cores)\<close> runs over the list of
  its indices; its state is \<open>(MIN, counter, disks_pooled)\<close>, with \<open>MIN'\<close> for \<open>MIN\<close>. Each round appends an empty
  list and extends the entry at index \<open>i\<close> by the slice \<open>disks[MIN:MIN + DIFF]\<close>; an
  index outside the list would raise \<open>IndexError\<close>.
\<close>

fun pool_loop ::
  "'a list \<Rightarrow> int \<Rightarrow> int \<Rightarrow> nat list \<Rightarrow> int \<times> int \<times> 'a list list \<Rightarrow> error + 'a list list"
where
  "pool_loop disks N n [] (MIN', counter, disks_pooled) = Inr disks_pooled"
| "pool_loop disks N n (i # rest) (MIN', counter, disks_pooled) =
     (let DIFF = (if counter < n then N + 1 else N);
          counter' = (if counter < n then counter + 1 else counter);
          appended = disks_pooled @ [[]]
      in if i < length appended
         then pool_loop disks N n rest
                (MIN' + DIFF, counter',
                 appended[i := appended ! i @ slice disks MIN' (MIN' + DIFF)])
         else Inl IndexError)"

definition pool_disks :: "'a list \<Rightarrow> int \<Rightarrow> error + 'a list list" where
  "pool_disks disks N_cores =
     (if N_cores = 0 then Inl ZeroDivisionError
      else pool_loop disks (int (length disks) div N_cores) (int (length disks) mod N_cores)
             [0..<nat N_cores] (0, 0, []))"

text \<open>
  The closed form of the partition, used to state what the loop computes: with
  \<open>N = len div W\<close> and \<open>n = len mod W\<close>, list \<open>i\<close> has \<open>pool_share N n i\<close> elements and
  starts at position \<open>pool_offset N n i\<close> of the input.
\<close>

definition pool_share :: "nat \<Rightarrow> nat \<Rightarrow> nat \<Rightarrow> nat" where
  "pool_share N n i = (if i < n then N + 1 else N)"

definition pool_offset :: "nat \<Rightarrow> nat \<Rightarrow> nat \<Rightarrow> nat" where
  "pool_offset N n i = i * N + min i n"

section \<open>The luminosity fit\<close>

text \<open>
  A double-precision result: a finite number or \<open>inf\<close>. The largest finite double is
  \<open>DBL_MAX\<close>; a positive result above it overflows to \<open>inf\<close>. The rounding of finite
  results is not modelled.
\<close>

datatype float_value = Finite real | PosInf

definition DBL_MAX :: real where
  "DBL_MAX = (2 - 1 / 2 ^ 52) * 2 ^ 1023"

definition overflow :: "real \<Rightarrow> float_value" where
  "overflow x = (if DBL_MAX < x then PosInf else Finite x)"

text \<open>The product of a positive coefficient and a result of \<open>numpy.power\<close>.\<close>

definition scaled :: "real \<Rightarrow> float_value \<Rightarrow> float_value" where
  "scaled c v = (case v of Finite x \<Rightarrow> overflow (c * x) | PosInf \<Rightarrow> PosInf)"

text \<open>
  \<open>luminosity_fit(mass)\<close>: a chain of ten tests with strict bounds on both sides, and zero
  in the \<open>else\<close> branch. The mass is in solar masses and the result in solar luminosities;
  \<open>numpy.power\<close> on a positive base is \<open>powr\<close>, and it overflows like any double.
\<close>

definition luminosity_fit :: "real \<Rightarrow> float_value" where
  "luminosity_fit mass =
     (if 0.12 < mass \<and> mass < 0.24 then scaled (1.70294 * 10 ^ 16) (overflow (mass powr 42.557))
      else if 0.24 < mass \<and> mass < 0.56 then scaled (9.11137 / 10 ^ 9) (overflow (mass powr 3.8845))
      else if 0.56 < mass \<and> mass < 0.70 then scaled (1.10021 / 10 ^ 6) (overflow (mass powr 12.237))
      else if 0.70 < mass \<and> mass < 0.91 then scaled (2.38690 / 10 ^ 4) (overflow (mass powr 27.199))
      else if 0.91 < mass \<and> mass < 1.37 then scaled (1.02477 / 10 ^ 4) (overflow (mass powr 18.465))
      else if 1.37 < mass \<and> mass < 2.07 then scaled (9.66362 / 10 ^ 4) (overflow (mass powr 11.410))
      else if 2.07 < mass \<and> mass < 3.72 then scaled (6.49335 / 10 ^ 2) (overflow (mass powr 5.6147))
      else if 3.72 < mass \<and> mass < 10.0 then scaled (6.99075 / 10) (overflow (mass powr 3.8058))
      else if 10.0 < mass \<and> mass < 20.2 then scaled 9.73664 (overflow (mass powr 2.6620))
      else if 20.2 < mass then scaled (1.31175 * 10 ^ 2) (overflow (mass powr 1.7974))
      else Finite 0)"

text \<open>The nine places where one segment ends and the next begins.\<close>

definition segment_boundaries :: "real set" where
  "segment_boundaries = {0.24, 0.56, 0.70, 0.91, 1.37, 2.07, 3.72, 10.0, 20.2}"

text \<open>A result is strictly positive when it is \<open>inf\<close> or a positive number.\<close>

definition strictly_positive :: "float_value \<Rightarrow> bool" where
  "strictly_positive v = (case v of Finite x \<Rightarrow> 0 < x | PosInf \<Rightarrow> True)"

section \<open>Stars, disks and integrator backends\<close>

type_synonym vec3 = "real \<times> real \<times> real"

definition vsub :: "vec3 \<Rightarrow> vec3 \<Rightarrow> vec3" where
  "vsub a b = (case a of (a1, a2, a3) \<Rightarrow> case b of (b1, b2, b3) \<Rightarrow> (a1 - b1, a2 - b2, a3 - b3))"

definition vlength :: "vec3 \<Rightarrow> real" where
  "vlength a = (case a of (a1, a2, a3) \<Rightarrow> sqrt (a1\<^sup>2 + a2\<^sup>2 + a3\<^sup>2))"

definition cross :: "vec3 \<Rightarrow> vec3 \<Rightarrow> vec3" where
  "cross a b = (case a of (a1, a2, a3) \<Rightarrow> case b of (b1, b2, b3) \<Rightarrow>
                 (a2 * b3 - a3 * b2, a3 * b1 - a1 * b3, a1 * b2 - a2 * b1))"

text \<open>The attributes of a particle of the set \<open>stars\<close> that the modelled functions use.\<close>

record star =
  key :: nat
  mass :: real
  stellar_mass :: real
  position :: vec3
  velocity :: vec3
  bright :: bool
  disked :: bool
  EUV :: bool
  disk_radius :: real
  disk_mass :: real
  disk_gas_mass :: real
  disk_dust_mass :: real
  collisional_radius :: real
  total_radiation :: real
  photoevap_Mdot :: real
  last_encounter :: real
  dispersal_time :: real
  truncation_mass_loss :: real
  cumulative_truncation_mass_loss :: real

text \<open>
  An integrator backend as \<open>setup_disks_and_codes\<close> configures it: the grid it is
  initialised with, its parameters, and the user parameters given by \<open>set_parameter\<close>.
\<close>

record vader =
  keplerian_grid :: "nat \<times> bool \<times> real \<times> real \<times> real"
  parameters_alpha :: real
  parameters_post_timestep_function :: bool
  parameters_maximum_tolerated_change :: real
  parameters_number_of_user_parameters :: nat
  parameters_inner_pressure_boundary_torque :: real
  user_parameter :: "nat \<Rightarrow> real option"

text \<open>
  The attributes of a \<open>Disk\<close> object that this file reads or writes; \<open>viscous\<close> is the
  backend the disk is bound to, as its position in the list of backends.
\<close>

record disk =
  key :: nat
  disk_radius :: real
  disk_mass :: real
  disk_gas_mass :: real
  disk_dust_mass :: real
  dispersed :: bool
  outer_photoevap_rate :: real
  viscous :: "nat option"

text \<open>
  The module's global state: the particle set \<open>stars\<close>, the list \<open>disks\<close> and the
  dictionary \<open>disk_indices\<close> from star keys to positions in \<open>disks\<close>.
\<close>

record globals =
  g_stars :: "star list"
  g_disks :: "disk list"
  g_disk_indices :: "nat \<Rightarrow> nat option"

section \<open>Encounters\<close>

text \<open>
  \<open>periastron_distance(stars)\<close>, with the gravitational constant \<open>G\<close> of the unit system
  as a parameter. \<open>stars[0]\<close> and \<open>stars[1]\<close> raise \<open>IndexError\<close> on a shorter list.
  When the energy \<open>E\<close> is zero, the division \<open>-mu / 2 / E\<close> of the source gives an infinite
  semi-major axis (\<open>None\<close> here), \<open>p / a\<close> is zero, the eccentricity is 1 and the result
  is \<open>p / 2\<close>. Two stars at the same place give a result that is not a number.
\<close>

definition periastron_distance :: "real \<Rightarrow> star list \<Rightarrow> error + real" where
  "periastron_distance G stars =
     (if length stars < 2 then Inl IndexError
      else if G \<le> 0 \<or> mass (stars ! 0) \<le> 0 \<or> mass (stars ! 1) \<le> 0 then Inl OutsideModel
      else
        let mu = G * (mass (stars ! 0) + mass (stars ! 1));
            r = vsub (position (stars ! 0)) (position (stars ! 1));
            v = vsub (velocity (stars ! 0)) (velocity (stars ! 1))
        in if vlength r = 0 then Inl OutsideModel
           else
             let E = (vlength v)\<^sup>2 / 2 - mu / vlength r;
                 a = (if E = 0 then None else Some (- mu / 2 / E));
                 p = (vlength (cross r v))\<^sup>2 / mu;
                 p_over_a = (case a of None \<Rightarrow> 0 | Some a' \<Rightarrow> p / a')
             in if 1 - p_over_a < 0 then Inl OutsideModel
                else
                  let e = sqrt (1 - p_over_a)
                  in Inr (p / (1 + e)))"

text \<open>
  The state of the loop of \<open>resolve_encounter\<close>: the two stars, the two disk references
  (\<open>None\<close> for a star without a disk) and the calls of the disks' \<open>truncate\<close> made so
  far, each with the disk as it was when called and the radius passed.
\<close>

type_synonym encounter_state = "star list \<times> disk option list \<times> (disk \<times> real) list"

text \<open>
  The five assignments to \<open>stars[i]\<close> in the branch \<open>truncation_radius <= 0.1 | units.au\<close>,
  in the order of the source: the disk mass is set to zero before it is copied into
  \<open>truncation_mass_loss\<close> and added to \<open>cumulative_truncation_mass_loss\<close>.
\<close>

definition dispersal_bookkeeping :: "real \<Rightarrow> real \<Rightarrow> star \<Rightarrow> star" where
  "dispersal_bookkeeping truncation_radius time s =
     (let s1 = s\<lparr>star.disk_radius := truncation_radius\<rparr>;
          s2 = s1\<lparr>star.disk_mass := 0\<rparr>;
          s3 = s2\<lparr>dispersal_time := time\<rparr>;
          s4 = s3\<lparr>truncation_mass_loss := star.disk_mass s3\<rparr>
      in s4\<lparr>cumulative_truncation_mass_loss :=
               cumulative_truncation_mass_loss s4 + star.disk_mass s4\<rparr>)"

text \<open>
  One round of \<open>for i in range(2)\<close>. \<open>Disk_truncate\<close> is the method \<open>truncate\<close> of the
  \<open>Disk\<close> class, which is not part of this file: it is a parameter, and the disk it
  returns is stored in \<open>disks[i]\<close>. The block after the dispersal branch has no \<open>else\<close>: it runs whenever
  \<open>truncation_radius < disks[i].disk_radius\<close>.
\<close>

definition resolve_star ::
  "(disk \<Rightarrow> real \<Rightarrow> disk) \<Rightarrow> real \<Rightarrow> real \<Rightarrow> real \<Rightarrow> real \<Rightarrow> nat \<Rightarrow> encounter_state
     \<Rightarrow> error + encounter_state"
where
  "resolve_star Disk_truncate closest_approach time mass_factor_exponent truncation_parameter i st =
     (case st of (stars, disks, calls) \<Rightarrow>
        if \<not> i < length stars \<or> \<not> 1 - i < length stars \<or> \<not> i < length disks
        then Inl IndexError
        else
          let stars1 = stars[i := (stars ! i)\<lparr>collisional_radius := 0.49 * closest_approach\<rparr>]
          in case disks ! i of
               None \<Rightarrow> Inr (stars1, disks, calls)
             | Some d \<Rightarrow>
                 if mass (stars1 ! i) \<le> 0 \<or> mass (stars1 ! (1 - i)) \<le> 0
                 then Inl OutsideModel
                 else
                   let truncation_radius =
                         closest_approach * truncation_parameter *
                         (mass (stars1 ! i) / mass (stars1 ! (1 - i))) powr mass_factor_exponent
                   in if truncation_radius < disk.disk_radius d
                      then
                        let d1 = (if truncation_radius \<le> 0.1 then d\<lparr>dispersed := True\<rparr> else d);
                            stars2 = (if truncation_radius \<le> 0.1
                                      then stars1[i := dispersal_bookkeeping truncation_radius time
                                                         (stars1 ! i)]
                                      else stars1);
                            new_disk = Disk_truncate d1 truncation_radius;
                            new_disk_radius = disk.disk_radius new_disk;
                            new_disk_mass = disk.disk_mass new_disk
                        in Inr (stars2[i := (stars2 ! i)\<lparr>last_encounter := time,
                                                           star.disk_radius := new_disk_radius,
                                                           star.disk_mass := new_disk_mass\<rparr>],
                                disks[i := Some new_disk],
                                calls @ [(d1, truncation_radius)])
                      else Inr (stars1, disks, calls))"

fun resolve_loop ::
  "(disk \<Rightarrow> real \<Rightarrow> disk) \<Rightarrow> real \<Rightarrow> real \<Rightarrow> real \<Rightarrow> real \<Rightarrow> nat list \<Rightarrow> encounter_state
     \<Rightarrow> error + encounter_state"
where
  "resolve_loop Disk_truncate closest_approach time mass_factor_exponent truncation_parameter [] st =
     Inr st"
| "resolve_loop Disk_truncate closest_approach time mass_factor_exponent truncation_parameter
     (i # rest) st =
     (case resolve_star Disk_truncate closest_approach time mass_factor_exponent
             truncation_parameter i st of
        Inl e \<Rightarrow> Inl e
      | Inr st' \<Rightarrow>
          resolve_loop Disk_truncate closest_approach time mass_factor_exponent
            truncation_parameter rest st')"

text \<open>
  \<open>resolve_encounter(stars, disks, time, mass_factor_exponent, truncation_parameter)\<close>;
  the parameters \<open>gamma\<close> and \<open>verbose\<close> change nothing but printed text. The result is
  the stars, the local list \<open>disks\<close> and the calls of \<open>truncate\<close> after the loop.
\<close>

definition resolve_encounter ::
  "real \<Rightarrow> (disk \<Rightarrow> real \<Rightarrow> disk) \<Rightarrow> star list \<Rightarrow> disk option list \<Rightarrow> real \<Rightarrow> real \<Rightarrow> real
     \<Rightarrow> error + encounter_state"
where
  "resolve_encounter G Disk_truncate stars disks time mass_factor_exponent truncation_parameter =
     (case periastron_distance G stars of
        Inl e \<Rightarrow> Inl e
      | Inr closest_approach \<Rightarrow>
          resolve_loop Disk_truncate closest_approach time mass_factor_exponent truncation_parameter
            [0, 1] (stars, disks, []))"

section \<open>Radiation and mass loss\<close>

text \<open>
  Unit conversions of the library the source computes with: \<open>value_in(units.cm)\<close> of a
  length in au, \<open>value_in(units.erg / units.s)\<close> of a luminosity in solar luminosities,
  and the flux unit \<open>G0\<close> of line 15 in erg / s / cm ^ 2.
\<close>

definition cm_per_au :: real where
  "cm_per_au = 1.495978707 * 10 ^ 13"

definition erg_s_per_LSun :: real where
  "erg_s_per_LSun = 3.839 * 10 ^ 33"

definition G0 :: real where
  "G0 = 1.6 / 10 ^ 3"

definition distance :: "star \<Rightarrow> star \<Rightarrow> real" where
  "distance star1 star2 =
     (case position star1 of (x1, y1, z1) \<Rightarrow> case position star2 of (x2, y2, z2) \<Rightarrow>
        sqrt ((x2 - x1)\<^sup>2 + (y2 - y1)\<^sup>2 + (z2 - z1)\<^sup>2))"

text \<open>
  \<open>stars[stars.key == i]\<close> is the subset of the particles with key \<open>i\<close>; keys are unique,
  so it has at most one particle. Reading an entry of an attribute of an empty subset
  raises \<open>IndexError\<close>; an assignment to an attribute of the subset changes the particles
  of \<open>stars\<close> with that key.
\<close>

definition star_with_key :: "star list \<Rightarrow> nat \<Rightarrow> star option" where
  "star_with_key stars i = find (\<lambda>s. star.key s = i) stars"

definition set_EUV :: "nat \<Rightarrow> bool \<Rightarrow> globals \<Rightarrow> globals" where
  "set_EUV i b w = w\<lparr>g_stars := map (\<lambda>s. if star.key s = i then s\<lparr>EUV := b\<rparr> else s) (g_stars w)\<rparr>"

text \<open>
  \<open>single_photoevaporation_mass_loss(i)\<close>. The interpolator of the FRIED grid is not part
  of this file: \<open>interp\<close> stands for \<open>interpolator.interp_amuse(...)[0]\<close>. The result is
  the mass-loss rate and the global state after the call. \<open>disk_indices[i]\<close> raises
  \<open>KeyError\<close> and \<open>disks[...]\<close> raises \<open>IndexError\<close>; with no star of key \<open>i\<close> the
  interpolator is called on empty arrays, which is outside the model.
\<close>

definition single_photoevaporation_mass_loss ::
  "(real \<Rightarrow> real \<Rightarrow> real \<Rightarrow> real \<Rightarrow> real) \<Rightarrow> globals \<Rightarrow> nat \<Rightarrow> error + real \<times> globals"
where
  "single_photoevaporation_mass_loss interp w i =
     (case g_disk_indices w i of
        None \<Rightarrow> Inl KeyError
      | Some j \<Rightarrow>
          if \<not> j < length (g_disks w) then Inl IndexError
          else
            case star_with_key (g_stars w) i of
              None \<Rightarrow> Inl OutsideModel
            | Some this_star \<Rightarrow>
                let this_disk = g_disks w ! j;
                    photoevap_Mdot_FUV =
                      interp (stellar_mass this_star) (star.total_radiation this_star)
                        (disk.disk_gas_mass this_disk) (disk.disk_radius this_disk);
                    photoevap_Mdot_EUV =
                      (if EUV this_star
                       then 2 * (1 / 10 ^ 9) * 3 * 4.12 *
                            (cm_per_au * star.disk_radius this_star / 10 ^ 14)
                       else 0)
                in Inr (photoevap_Mdot_FUV + photoevap_Mdot_EUV, set_EUV i False w))"

text \<open>
  \<open>single_total_radiation(i)\<close>: the loop over the bright stars, with the sum so far and the
  global state. A bright star at the place of the star itself, or one with an infinite
  luminosity, makes the flux infinite.
\<close>

fun radiation_loop :: "star list \<Rightarrow> nat \<Rightarrow> real \<times> globals \<Rightarrow> error + real \<times> globals" where
  "radiation_loop [] i (total_rad, w) = Inr (total_rad, w)"
| "radiation_loop (s # rest) i (total_rad, w) =
     (case star_with_key (g_stars w) i of
        None \<Rightarrow> Inl IndexError
      | Some this_star \<Rightarrow>
          (case luminosity_fit (stellar_mass s) of
             PosInf \<Rightarrow> Inl OutsideModel
           | Finite lum \<Rightarrow>
               let dist = distance s this_star;
                   dmin = 5 * 10 ^ 17 * 0.25 *
                          sqrt (cm_per_au * star.disk_radius this_star / 10 ^ 14);
                   w1 = (if cm_per_au * dist < dmin then set_EUV i True w else w);
                   rad = lum * erg_s_per_LSun;
                   d = cm_per_au * dist
               in if d = 0 then Inl OutsideModel
                  else radiation_loop rest i (total_rad + rad / (4 * pi * d\<^sup>2) / G0, w1)))"

definition single_total_radiation :: "globals \<Rightarrow> nat \<Rightarrow> error + real \<times> globals" where
  "single_total_radiation w i =
     (if i \<in> set (map star.key (filter bright (g_stars w))) then Inr (0, w)
      else radiation_loop (filter bright (g_stars w)) i (0, w))"

text \<open>
  \<open>pool.map(f, indices)\<close> of a \<open>multiprocessing.Pool\<close>. The tasks run in worker processes,
  each on its own copy of the module's globals, and only the returned values reach the
  caller: this is \<open>Forked\<close>, where every task starts from the caller's state and the
  caller's state is unchanged. \<open>InProcess\<close> is the reading in which the tasks write to the
  caller's star records, one after the other. An exception of a task is raised again in
  the caller. The indices are the keys of distinct stars, and a task reads and writes
  only the star of its own key.
\<close>

datatype pool_semantics = Forked | InProcess

fun pool_map ::
  "pool_semantics \<Rightarrow> (globals \<Rightarrow> nat \<Rightarrow> error + 'a \<times> globals) \<Rightarrow> globals \<Rightarrow> nat list
     \<Rightarrow> error + 'a list \<times> globals"
where
  "pool_map sem f w [] = Inr ([], w)"
| "pool_map sem f w (i # rest) =
     (case f w i of
        Inl e \<Rightarrow> Inl e
      | Inr (x, w1) \<Rightarrow>
          (case pool_map sem f (case sem of Forked \<Rightarrow> w | InProcess \<Rightarrow> w1) rest of
             Inl e \<Rightarrow> Inl e
           | Inr (xs, w2) \<Rightarrow> Inr (x # xs, w2)))"

text \<open>\<open>Pool(processes=nc)\<close> raises \<open>ValueError\<close> unless \<open>nc\<close> is at least 1.\<close>

definition photoevaporation_mass_loss ::
  "pool_semantics \<Rightarrow> (real \<Rightarrow> real \<Rightarrow> real \<Rightarrow> real \<Rightarrow> real) \<Rightarrow> globals \<Rightarrow> nat list \<Rightarrow> int
     \<Rightarrow> error + real list \<times> globals"
where
  "photoevaporation_mass_loss sem interp w indices nc =
     (if nc < 1 then Inl ValueError
      else pool_map sem (single_photoevaporation_mass_loss interp) w indices)"

definition total_radiation ::
  "pool_semantics \<Rightarrow> globals \<Rightarrow> nat list \<Rightarrow> int \<Rightarrow> error + real list \<times> globals"
where
  "total_radiation sem w indices nc =
     (if nc < 1 then Inl ValueError else pool_map sem single_total_radiation w indices)"

text \<open>
  An assignment of a list of values to an attribute of \<open>stars[stars.disked]\<close>: the stars
  with the flag take the values in order.
\<close>

fun assign_disked :: "(star \<Rightarrow> real \<Rightarrow> star) \<Rightarrow> star list \<Rightarrow> real list \<Rightarrow> star list" where
  "assign_disked upd [] vs = []"
| "assign_disked upd (s # rest) vs =
     (if disked s
      then (case vs of
              [] \<Rightarrow> s # rest
            | v # vs' \<Rightarrow> upd s v # assign_disked upd rest vs')
      else s # assign_disked upd rest vs)"

text \<open>
  The radiation and mass-loss stage of a step of \<open>main\<close> (the two assignments under the
  banner \<open>Photoevaporation\<close>): the radiation on every disked star, then its mass loss.
\<close>

definition main_photoevaporation ::
  "pool_semantics \<Rightarrow> (real \<Rightarrow> real \<Rightarrow> real \<Rightarrow> real \<Rightarrow> real) \<Rightarrow> globals \<Rightarrow> int \<Rightarrow> error + globals"
where
  "main_photoevaporation sem interp w ncores =
     (case total_radiation sem w (map star.key (filter disked (g_stars w))) ncores of
        Inl e \<Rightarrow> Inl e
      | Inr (radiation, w1) \<Rightarrow>
          let w2 = w1\<lparr>g_stars :=
                       assign_disked (\<lambda>s v. s\<lparr>star.total_radiation := v\<rparr>) (g_stars w1) radiation\<rparr>
          in case photoevaporation_mass_loss sem interp w2
                    (map star.key (filter disked (g_stars w2))) ncores of
               Inl e \<Rightarrow> Inl e
             | Inr (mdot, w3) \<Rightarrow>
                 Inr (w3\<lparr>g_stars :=
                          assign_disked (\<lambda>s v. s\<lparr>photoevap_Mdot := v\<rparr>) (g_stars w3) mdot\<rparr>))"

section \<open>Backends and the evolution of the disks\<close>

text \<open>The atomic mass unit \<open>constants.u\<close> in grams.\<close>

definition atomic_mass_unit_g :: real where
  "atomic_mass_unit_g = 1.660538782 / 10 ^ 24"

text \<open>
  One round of the loop over \<open>range(number_of_vaders)\<close> in \<open>setup_disks_and_codes\<close>: the
  backend \<open>viscous_codes[i]\<close> after its configuration. User parameter 3 is \<open>Tm\<close> in K,
  computed from \<open>stellar_masses[i]\<close>, the mass of the star with the backend's index.
\<close>

definition configured_code :: "nat \<Rightarrow> real \<Rightarrow> real \<Rightarrow> real \<Rightarrow> real \<Rightarrow> real \<Rightarrow> vader" where
  "configured_code number_of_cells r_min r_max alpha mu stellar_mass_i =
     \<lparr>keplerian_grid = (number_of_cells, False, r_min, r_max, 1),
      parameters_alpha = alpha,
      parameters_post_timestep_function = True,
      parameters_maximum_tolerated_change = 10 ^ 99,
      parameters_number_of_user_parameters = 6,
      parameters_inner_pressure_boundary_torque = 0,
      user_parameter = [2 \<mapsto> 1 / 10 ^ 12,
                        3 \<mapsto> 100 * stellar_mass_i powr (1 / 4),
                        4 \<mapsto> mu * 1.008 * atomic_mass_unit_g]\<rparr>"

text \<open>
  The first half of \<open>setup_disks_and_codes\<close>: the number of backends is capped by the
  number of stars, and each backend is configured.
\<close>

definition setup_viscous_codes ::
  "real list \<Rightarrow> nat \<Rightarrow> nat \<Rightarrow> real \<Rightarrow> real \<Rightarrow> real \<Rightarrow> real \<Rightarrow> vader list"
where
  "setup_viscous_codes stellar_masses number_of_vaders number_of_cells r_min r_max alpha mu =
     (let number_of_vaders' = (if number_of_vaders < length stellar_masses then number_of_vaders
                               else length stellar_masses)
      in map (\<lambda>i. configured_code number_of_cells r_min r_max alpha mu (stellar_masses ! i))
           [0..<number_of_vaders'])"

text \<open>
  \<open>setup_disks_and_codes\<close>. The constructor of the class \<open>Disk\<close> is not part of this
  file: \<open>Disk\<close> is a parameter. An index outside one of the lists raises \<open>IndexError\<close>,
  and so does \<open>viscous_codes[0]\<close> when there is a disk and no backend.
\<close>

definition setup_disks_and_codes ::
  "(nat \<Rightarrow> real \<Rightarrow> real \<Rightarrow> real \<Rightarrow> real \<Rightarrow> real \<Rightarrow> nat \<times> bool \<times> real \<times> real \<times> real \<Rightarrow> real \<Rightarrow> bool \<Rightarrow> disk)
     \<Rightarrow> nat list \<Rightarrow> real list \<Rightarrow> real list \<Rightarrow> real list \<Rightarrow> real list \<Rightarrow> real list
     \<Rightarrow> nat \<Rightarrow> nat \<Rightarrow> real \<Rightarrow> real \<Rightarrow> real \<Rightarrow> real \<Rightarrow> error + vader list \<times> disk list"
where
  "setup_disks_and_codes Disk star_keys disk_radii disk_masses stellar_masses dispersed_masses
     dispersed_densities number_of_vaders number_of_cells r_min r_max alpha mu =
     (let viscous_codes = setup_viscous_codes stellar_masses number_of_vaders number_of_cells
                            r_min r_max alpha mu;
          number_of_disks = length stellar_masses
      in if number_of_disks = 0 then Inr (viscous_codes, [])
         else if length star_keys < number_of_disks \<or> length disk_radii < number_of_disks \<or>
                 length disk_masses < number_of_disks \<or>
                 length dispersed_masses < number_of_disks \<or>
                 length dispersed_densities < number_of_disks \<or> viscous_codes = []
         then Inl IndexError
         else Inr (viscous_codes,
                   map (\<lambda>i. Disk (star_keys ! i) (disk_radii ! i) (disk_masses ! i)
                              (stellar_masses ! i) (dispersed_masses ! i)
                              (dispersed_densities ! i) (keplerian_grid (viscous_codes ! 0))
                              mu True)
                     [0..<number_of_disks]))"

text \<open>
  \<open>remote_worker_code\<close> on one package: every disk of the package is bound to the
  package's backend (\<open>disk.viscous = code\<close>, here the backend's position \<open>h\<close>) and evolved
  for \<open>dt\<close>, one after the other. The method \<open>evolve_disk_for\<close> of the class \<open>Disk\<close> is
  not part of this file: \<open>Disk_evolve_disk_for\<close> is a parameter that takes the backend
  the disk is bound to, the disk and \<open>dt\<close>, and returns the disk and the backend after
  the step.
\<close>

fun remote_worker_code ::
  "(vader \<Rightarrow> disk \<Rightarrow> real \<Rightarrow> disk \<times> vader) \<Rightarrow> nat \<Rightarrow> disk list \<Rightarrow> vader \<Rightarrow> real
     \<Rightarrow> disk list \<times> vader"
where
  "remote_worker_code Disk_evolve_disk_for h [] code dt = ([], code)"
| "remote_worker_code Disk_evolve_disk_for h (d # rest) code dt =
     (case Disk_evolve_disk_for code (d\<lparr>viscous := Some h\<rparr>) dt of
        (d1, code1) \<Rightarrow>
          (case remote_worker_code Disk_evolve_disk_for h rest code1 dt of
             (ds, code2) \<Rightarrow> (d1 # ds, code2)))"




section \<open>The flags \<open>bright\<close> and \<open>disked\<close> in \<open>main\<close>\<close>

text \<open>
  The four assignments of \<open>main\<close> that classify the stars, in their order: each one
  writes a flag of the stars that its mask selects.
\<close>

definition main_assign_flags :: "star list \<Rightarrow> star list" where
  "main_assign_flags stars =
     (let stars1 = map (\<lambda>s. if stellar_mass s > 1.9 then s\<lparr>bright := True\<rparr> else s) stars;
          stars2 = map (\<lambda>s. if stellar_mass s > 1.9 then s\<lparr>disked := False\<rparr> else s) stars1;
          stars3 = map (\<lambda>s. if stellar_mass s \<le> 1.9 then s\<lparr>bright := False\<rparr> else s) stars2
      in map (\<lambda>s. if stellar_mass s \<le> 1.9 then s\<lparr>disked := True\<rparr> else s) stars3)"

text \<open>
  The loop \<open>for this_star in stars[stars.disked]\<close> after \<open>run_disks\<close>: every star that has
  the flag \<open>disked\<close> takes the state of its disk, and \<open>disked\<close> becomes \<open>not dispersed\<close>.
  A key missing from \<open>disk_indices\<close> raises \<open>KeyError\<close>, an index outside \<open>disks\<close>
  \<open>IndexError\<close>. A round changes no star but its own and no disk.
\<close>

definition sync_star :: "disk \<Rightarrow> star \<Rightarrow> star" where
  "sync_star this_disk this_star =
     this_star\<lparr>disked := \<not> dispersed this_disk,
               star.disk_radius := disk.disk_radius this_disk,
               star.disk_dust_mass := disk.disk_dust_mass this_disk,
               star.disk_gas_mass := disk.disk_gas_mass this_disk,
               star.disk_mass := disk.disk_mass this_disk\<rparr>"

fun sync_loop :: "globals \<Rightarrow> star list \<Rightarrow> error + star list" where
  "sync_loop w [] = Inr []"
| "sync_loop w (this_star # rest) =
     (if disked this_star
      then (case g_disk_indices w (star.key this_star) of
              None \<Rightarrow> Inl KeyError
            | Some j \<Rightarrow>
                if \<not> j < length (g_disks w) then Inl IndexError
                else (case sync_loop w rest of
                        Inl e \<Rightarrow> Inl e
                      | Inr rest' \<Rightarrow> Inr (sync_star (g_disks w ! j) this_star # rest')))
      else (case sync_loop w rest of
              Inl e \<Rightarrow> Inl e
            | Inr rest' \<Rightarrow> Inr (this_star # rest')))"

definition main_sync_stars :: "globals \<Rightarrow> error + globals" where
  "main_sync_stars w =
     (case sync_loop w (g_stars w) of
        Inl e \<Rightarrow> Inl e
      | Inr stars' \<Rightarrow> Inr (w\<lparr>g_stars := stars'\<rparr>))"

section \<open>Example inputs\<close>

text \<open>
  A star of one solar mass with a disk of 30 au, and its disk. In the examples the units
  are au, solar masses and the time in which the gravitational constant is 1.
\<close>

definition example_star :: star where
  "example_star =
     \<lparr>star.key = 7, mass = 1.1, stellar_mass = 1, position = (0, 0, 0), velocity = (0, 0, 0),
      bright = False, disked = False, EUV = False, disk_radius = 30, disk_mass = 0.1,
      disk_gas_mass = 0.1, disk_dust_mass = 0, collisional_radius = 4125,
      total_radiation = 0, photoevap_Mdot = 0, last_encounter = 0, dispersal_time = 0,
      truncation_mass_loss = 0, cumulative_truncation_mass_loss = 0\<rparr>"

definition example_disk :: disk where
  "example_disk =
     \<lparr>disk.key = 7, disk_radius = 30, disk_mass = 0.1, disk_gas_mass = 0.1, disk_dust_mass = 0,
      dispersed = False, outer_photoevap_rate = 0, viscous = None\<rparr>"

text \<open>
  A stand-in for the method \<open>truncate\<close> of a disk: the radius becomes the new radius and
  the mass shrinks in proportion.
\<close>

definition example_truncate :: "disk \<Rightarrow> real \<Rightarrow> disk" where
  "example_truncate d r =
     d\<lparr>disk.disk_radius := r, disk.disk_mass := disk.disk_mass d * r / disk.disk_radius d\<rparr>"

text \<open>
  Two stars of mass \<open>m\<close>: the first at distance \<open>x\<close> from the second, which rests at
  the origin, moving with the speed \<open>u\<close> across the line between them; \<open>R\<close> is the
  collisional radius of the first star.
\<close>

definition orbiting_pair :: "real \<Rightarrow> real \<Rightarrow> real \<Rightarrow> real \<Rightarrow> star list" where
  "orbiting_pair m x u R =
     [example_star\<lparr>mass := m, position := (x, 0, 0), velocity := (0, u, 0),
                   collisional_radius := R\<rparr>,
      example_star\<lparr>star.key := 8, mass := m\<rparr>]"


text \<open>
  The example star with the EUV flag set and a disk radius of \<open>r\<close> au, its disk, and an
  interpolator that returns the rate \<open>fuv\<close> everywhere.
\<close>

definition euv_globals :: "real \<Rightarrow> globals" where
  "euv_globals r =
     \<lparr>g_stars = [example_star\<lparr>EUV := True, star.disk_radius := r\<rparr>],
      g_disks = [example_disk],
      g_disk_indices = [7 \<mapsto> 0]\<rparr>"

definition constant_interp :: "real \<Rightarrow> real \<Rightarrow> real \<Rightarrow> real \<Rightarrow> real \<Rightarrow> real" where
  "constant_interp fuv stellar_mass_in radiation_in gas_mass_in radius_in = fuv"

text \<open>
  Three stars after a step: the example star, whose disk has dispersed, a second star of
  one solar mass with an intact disk, and a bright star of five solar masses.
\<close>

definition three_stars :: globals where
  "three_stars =
     \<lparr>g_stars = main_assign_flags
                  [example_star, example_star\<lparr>star.key := 8\<rparr>,
                   example_star\<lparr>star.key := 9, stellar_mass := 5\<rparr>],
      g_disks = [example_disk\<lparr>dispersed := True\<rparr>, example_disk\<lparr>disk.key := 8\<rparr>],
      g_disk_indices = [7 \<mapsto> 0, 8 \<mapsto> 1]\<rparr>"




section \<open>Properties of the disk pool partitioner\<close>

lemma slice_nonneg:
  "0 \<le> lo \<Longrightarrow> lo \<le> hi \<Longrightarrow> slice xs lo hi = take (nat (hi - lo)) (drop (nat lo) xs)"
  by (auto simp: slice_def Let_def min_def)

lemma slice_nat:
  "slice xs (int a) (int a + int b) = take b (drop a xs)"
  by (simp add: slice_nonneg)

lemma pool_offset_Suc: "pool_offset N n (Suc i) = pool_offset N n i + pool_share N n i"
  by (auto simp: pool_offset_def pool_share_def min_def)

lemma pool_loop_upt:
  "length pooled = j \<Longrightarrow>
   pool_loop disks (int N) (int n) [j..<j + k] (int (pool_offset N n j), int (min j n), pooled) =
   Inr (pooled @ map (\<lambda>i. take (pool_share N n i) (drop (pool_offset N n i) disks)) [j..<j + k])"
proof (induction k arbitrary: j pooled)
  case 0
  then show ?case by simp
next
  case (Suc k)
  have upt: "[j..<j + Suc k] = j # [Suc j..<Suc j + k]"
    by (simp add: upt_conv_Cons)
  have diff: "(if int (min j n) < int n then int N + 1 else int N) = int (pool_share N n j)"
    by (auto simp: pool_share_def min_def)
  have cnt: "(if int (min j n) < int n then int (min j n) + 1 else int (min j n)) = int (min (Suc j) n)"
    by (auto simp: min_def)
  have app: "(pooled @ [[]])[j := (pooled @ [[]]) ! j @ s] = pooled @ [s]" for s
    using Suc.prems by (simp add: nth_append list_update_append)
  have len: "length (pooled @ [s]) = Suc j" for s :: "'a list"
    using Suc.prems by simp
  have off: "int (pool_offset N n j) + int (pool_share N n j) = int (pool_offset N n (Suc j))"
    by (simp add: pool_offset_Suc)
  have sl: "slice disks (int (pool_offset N n j)) (int (pool_offset N n (Suc j))) =
            take (pool_share N n j) (drop (pool_offset N n j) disks)"
    unfolding off [symmetric] by (rule slice_nat)
  show ?case
    unfolding upt pool_loop.simps Let_def diff cnt
    using Suc.prems Suc.IH [OF len]
    by (simp add: app sl off del: upt_Suc)
qed

lemma concat_shares:
  "concat (map (\<lambda>i. take (pool_share N n i) (drop (pool_offset N n i) xs)) [0..<k]) = take (pool_offset N n k) xs"
proof (induction k)
  case 0
  then show ?case by (simp add: pool_offset_def)
next
  case (Suc k)
  then show ?case by (simp add: pool_offset_Suc take_add)
qed

lemma pool_offset_total: "0 < W \<Longrightarrow> pool_offset (len div W) (len mod W) W = len"
proof -
  assume "0 < W"
  then have "len mod W < W" by simp
  then have "min W (len mod W) = len mod W" by simp
  then show ?thesis by (simp add: pool_offset_def)
qed

lemma pool_disks_eq:
  assumes "0 < W"
  shows "pool_disks disks (int W) =
         Inr (map (\<lambda>i. take (pool_share (length disks div W) (length disks mod W) i)
                          (drop (pool_offset (length disks div W) (length disks mod W) i) disks))
                [0..<W])"
proof -
  have "pool_loop disks (int (length disks div W)) (int (length disks mod W)) [0..<0 + W]
          (int (pool_offset (length disks div W) (length disks mod W) 0), int (min 0 (length disks mod W)), []) =
        Inr ([] @ map (\<lambda>i. take (pool_share (length disks div W) (length disks mod W) i)
                          (drop (pool_offset (length disks div W) (length disks mod W) i) disks))
                [0..<0 + W])"
    by (rule pool_loop_upt) simp
  then show ?thesis
    using assms by (simp add: pool_disks_def pool_offset_def zdiv_int zmod_int)
qed

lemma ceiling_share:
  assumes "0 < W" "i < len mod W"
  shows "nat \<lceil>real len / real W\<rceil> = len div W + 1"
proof -
  have r: "0 < len mod W" "len mod W < W"
    using assms by simp_all
  have "real len = real W * real (len div W) + real (len mod W)"
    by (metis mult_div_mod_eq of_nat_add of_nat_mult)
  then have split: "real len / real W = real (len div W) + real (len mod W) / real W"
    using assms(1) by (simp add: field_simps)
  have lo: "0 < real (len mod W) / real W" and hi: "real (len mod W) / real W \<le> 1"
    using r by simp_all
  have "\<lceil>real len / real W\<rceil> = int (len div W) + 1"
    by (rule ceiling_unique) (use split lo hi in simp_all)
  then show ?thesis by simp
qed

lemma floor_share:
  assumes "0 < (W::nat)"
  shows "nat \<lfloor>real len / real W\<rfloor> = len div W"
  by (simp add: floor_divide_of_nat_eq)

text \<open>
  Claim C1. For every sequence of \<open>N\<close> disks and every worker count \<open>W \<ge> 1\<close>,
  \<open>pool_disks\<close> returns exactly \<open>W\<close> lists. Each list is a contiguous slice of the input
  (list \<open>i\<close> starts at position \<open>i * (N div W) + min i (N mod W)\<close>), their concatenation
  is the input in its order, the first \<open>N mod W\<close> lists have \<open>\<lceil>N / W\<rceil>\<close> elements and
  the others \<open>\<lfloor>N / W\<rfloor>\<close>, and any two sizes differ by at most 1.
\<close>

theorem pool_disks_partition:
  assumes "1 \<le> W"
  shows "\<exists>ps. pool_disks disks (int W) = Inr ps \<and> length ps = W \<and> concat ps = disks \<and>
     (\<forall>i<W. ps ! i = take (length (ps ! i))
                       (drop (i * (length disks div W) + min i (length disks mod W)) disks) \<and>
             length (ps ! i) = (if i < length disks mod W
                                then nat \<lceil>real (length disks) / real W\<rceil>
                                else nat \<lfloor>real (length disks) / real W\<rfloor>)) \<and>
     (\<forall>i<W. \<forall>j<W. length (ps ! i) \<le> length (ps ! j) + 1)"
proof -
  define N where "N = length disks div W"
  define n where "n = length disks mod W"
  define ps where "ps = map (\<lambda>i. take (pool_share N n i) (drop (pool_offset N n i) disks)) [0..<W]"
  have W: "0 < W" using assms by simp
  have eq: "pool_disks disks (int W) = Inr ps"
    unfolding ps_def N_def n_def using W by (rule pool_disks_eq)
  have len: "length ps = W" by (simp add: ps_def)
  have cat: "concat ps = disks"
    unfolding ps_def concat_shares N_def n_def by (simp add: pool_offset_total [OF W])
  have nth: "ps ! i = take (pool_share N n i) (drop (pool_offset N n i) disks)" if "i < W" for i
    using that by (simp add: ps_def)
  have total: "pool_offset N n i + pool_share N n i \<le> length disks" if "i < W" for i
  proof -
    have "Suc i \<le> W" using that by simp
    then have "Suc i * N \<le> W * N" and "min (Suc i) n \<le> min W n"
      by (rule mult_le_mono1, simp)
    then have "pool_offset N n (Suc i) \<le> pool_offset N n W"
      unfolding pool_offset_def by (rule add_mono)
    then show ?thesis
      by (simp add: pool_offset_Suc N_def n_def pool_offset_total [OF W])
  qed
  have size: "length (ps ! i) = pool_share N n i" if "i < W" for i
    using total [OF that] by (simp add: nth [OF that])
  have slice: "ps ! i = take (length (ps ! i)) (drop (i * (length disks div W) + min i (length disks mod W)) disks)"
    if "i < W" for i
    unfolding size [OF that] using nth [OF that] by (simp add: pool_offset_def N_def n_def)
  have shares: "length (ps ! i) = (if i < length disks mod W
                                then nat \<lceil>real (length disks) / real W\<rceil>
                                else nat \<lfloor>real (length disks) / real W\<rfloor>)" if "i < W" for i
    unfolding size [OF that]
    by (simp add: pool_share_def N_def n_def ceiling_share [OF W] floor_share [OF W])
  have bal: "length (ps ! i) \<le> length (ps ! j) + 1" if "i < W" "j < W" for i j
    unfolding size [OF that(1)] size [OF that(2)] by (simp add: pool_share_def)
  show ?thesis
    using eq len cat slice shares bal by blast
qed

lemma take_one_drop: "i < length xs \<Longrightarrow> take (Suc 0) (drop i xs) = [xs ! i]"
  by (metis Cons_nth_drop_Suc take0 take_Suc_Cons)

text \<open>Seven disks over three workers: shares of 3, 2 and 2.\<close>

theorem pool_disks_partition_witness:
  "(1::nat) \<le> 3 \<and>
   pool_disks [10, 20, 30, 40, 50, 60, 70 :: nat] (int 3) = Inr [[10, 20, 30], [40, 50], [60, 70]] \<and>
   (\<exists>ps. pool_disks [10, 20, 30, 40, 50, 60, 70 :: nat] (int 3) = Inr ps \<and> length ps = 3 \<and>
      concat ps = [10, 20, 30, 40, 50, 60, 70] \<and>
      (\<forall>i<3. \<forall>j<3. length (ps ! i) \<le> length (ps ! j) + 1))"
proof -
  have h: "(1::nat) \<le> 3" by simp
  have v: "pool_disks [10, 20, 30, 40, 50, 60, 70 :: nat] (int 3) = Inr [[10, 20, 30], [40, 50], [60, 70]]"
    by code_simp
  show ?thesis
    using h v pool_disks_partition [OF h, of "[10, 20, 30, 40, 50, 60, 70 :: nat]"] by simp
qed

text \<open>
  Claim C10. For every list of disks and every \<open>N_cores \<ge> 1\<close>, \<open>pool_disks\<close> returns a
  result (it raises nothing) of exactly \<open>N_cores\<close> lists whose concatenation is the input;
  when \<open>N_cores\<close> exceeds the number of disks, the first \<open>len(disks)\<close> lists hold one disk
  each, in order, and the remaining lists are empty.
\<close>

theorem pool_disks_total:
  assumes "1 \<le> W"
  shows "\<exists>ps. pool_disks disks (int W) = Inr ps \<and> length ps = W \<and> concat ps = disks \<and>
     (length disks < W \<longrightarrow>
        (\<forall>i<length disks. ps ! i = [disks ! i]) \<and>
        (\<forall>i. length disks \<le> i \<and> i < W \<longrightarrow> ps ! i = []))"
proof -
  define N where "N = length disks div W"
  define n where "n = length disks mod W"
  define ps where "ps = map (\<lambda>i. take (pool_share N n i) (drop (pool_offset N n i) disks)) [0..<W]"
  have W: "0 < W" using assms by simp
  have eq: "pool_disks disks (int W) = Inr ps"
    unfolding ps_def N_def n_def using W by (rule pool_disks_eq)
  have len: "length ps = W" by (simp add: ps_def)
  have cat: "concat ps = disks"
    unfolding ps_def concat_shares N_def n_def by (simp add: pool_offset_total [OF W])
  have nth: "ps ! i = take (pool_share N n i) (drop (pool_offset N n i) disks)" if "i < W" for i
    using that by (simp add: ps_def)
  have one: "ps ! i = [disks ! i]" if "length disks < W" "i < length disks" for i
  proof -
    have "N = 0" "n = length disks" using that(1) by (simp_all add: N_def n_def)
    then have "pool_share N n i = Suc 0" "pool_offset N n i = i"
      using that(2) by (simp_all add: pool_share_def pool_offset_def)
    then show ?thesis
      using that nth [of i] by (simp add: take_one_drop)
  qed
  have none: "ps ! i = []" if "length disks < W" "length disks \<le> i" "i < W" for i
  proof -
    have "N = 0" "n = length disks" using that(1) by (simp_all add: N_def n_def)
    then have "pool_share N n i = 0"
      using that(2) by (simp add: pool_share_def)
    then show ?thesis
      using that nth [of i] by simp
  qed
  show ?thesis
    using eq len cat one none by blast
qed

text \<open>Two disks over five workers.\<close>

theorem pool_disks_total_witness:
  "(1::nat) \<le> 5 \<and>
   pool_disks [10, 20 :: nat] (int 5) = Inr [[10], [20], [], [], []] \<and>
   (\<exists>ps. pool_disks [10, 20 :: nat] (int 5) = Inr ps \<and> length ps = 5 \<and> concat ps = [10, 20] \<and>
      ps ! 0 = [10] \<and> ps ! 1 = [20] \<and> ps ! 2 = [] \<and> ps ! 3 = [] \<and> ps ! 4 = [])"
proof -
  have h: "(1::nat) \<le> 5" by simp
  have v: "pool_disks [10, 20 :: nat] (int 5) = Inr [[10], [20], [], [], []]"
    by code_simp
  show ?thesis
    using h v pool_disks_total [OF h, of "[10, 20 :: nat]"] by simp
qed

text \<open>With no worker at all the integer division raises.\<close>

lemma pool_disks_zero: "pool_disks disks 0 = Inl ZeroDivisionError"
  by (simp add: pool_disks_def)

section \<open>Properties of the luminosity fit\<close>

lemma DBL_MAX_lower: "(10::real) ^ 308 \<le> DBL_MAX"
  by (simp add: DBL_MAX_def)

lemma DBL_MAX_upper: "DBL_MAX < (10::real) ^ 309"
  by (simp add: DBL_MAX_def)

lemma powr_bound_small:
  fixes m e :: real
  assumes "0 < m" "m \<le> 32" "0 \<le> e" "e \<le> 43"
  shows "m powr e \<le> 2 ^ 215"
proof (cases "m \<le> 1")
  case True
  then have "m powr e \<le> 1"
    using assms by (simp add: powr_le1)
  also have "(1::real) \<le> 2 ^ 215" by simp
  finally show ?thesis .
next
  case False
  then have m: "1 \<le> m" by simp
  have "m powr e \<le> 32 powr e"
    using assms by (intro powr_mono2) simp_all
  also have "\<dots> \<le> 32 powr 43"
    using assms by (intro powr_mono) simp_all
  also have "\<dots> = 2 ^ 215"
    by simp
  finally show ?thesis .
qed

lemma power_powr:
  fixes x :: real
  assumes "0 < x"
  shows "(x ^ n) powr e = x powr (real n * e)"
  using assms by (simp add: powr_realpow [symmetric] powr_powr)

lemma powr_170: "((10::real) ^ 170) powr (9 / 5) = 10 ^ 306"
proof -
  have "((10::real) ^ 170) powr (9 / 5) = 10 powr (real 170 * (9 / 5))"
    by (rule power_powr) simp
  also have "\<dots> = 10 powr (real 306)" by simp
  also have "\<dots> = 10 ^ 306" by (rule powr_realpow) simp
  finally show ?thesis .
qed

lemma powr_200: "((10::real) ^ 200) powr (8 / 5) = 10 ^ 320"
proof -
  have "((10::real) ^ 200) powr (8 / 5) = 10 powr (real 200 * (8 / 5))"
    by (rule power_powr) simp
  also have "\<dots> = 10 powr (real 320)" by simp
  also have "\<dots> = 10 ^ 320" by (rule powr_realpow) simp
  finally show ?thesis .
qed

text \<open>A branch of the fit is positive, and finite when neither operation overflows.\<close>

lemma scaled_positive:
  assumes "0 < c" "0 < x"
  shows "strictly_positive (scaled c (overflow x))"
  using assms by (simp add: strictly_positive_def scaled_def overflow_def)

lemma finite_positive:
  assumes "\<exists>x. v = Finite x \<and> 0 < x"
  shows "strictly_positive v"
  using assms by (auto simp: strictly_positive_def)

lemma scaled_finite:
  assumes "0 < c" "0 < x" "x \<le> DBL_MAX" "c * x \<le> DBL_MAX"
  shows "scaled c (overflow x) = Finite (c * x) \<and> 0 < c * x"
  using assms by (simp add: scaled_def overflow_def)

lemma branch_finite_small:
  fixes m e c :: real
  assumes "0 < m" "m \<le> 32" "0 \<le> e" "e \<le> 43" "0 < c" "c \<le> 2 ^ 60"
  shows "scaled c (overflow (m powr e)) = Finite (c * m powr e) \<and> 0 < c * m powr e"
proof (rule scaled_finite)
  show "0 < c" by fact
  show pos: "0 < m powr e" using assms(1) by simp
  have b: "m powr e \<le> 2 ^ 215" using assms(1-4) by (rule powr_bound_small)
  have "(2::real) ^ 215 \<le> 10 ^ 308" by simp
  with b DBL_MAX_lower show "m powr e \<le> DBL_MAX" by linarith
  have "c * m powr e \<le> 2 ^ 60 * 2 ^ 215"
    using assms(5,6) b pos by (intro mult_mono) simp_all
  moreover have "(2::real) ^ 60 * 2 ^ 215 \<le> 10 ^ 308" by simp
  ultimately show "c * m powr e \<le> DBL_MAX" using DBL_MAX_lower by linarith
qed

lemma branch_finite_top:
  fixes m :: real
  assumes "20.2 < m" "m \<le> 10 ^ 170"
  shows "scaled (1.31175 * 10 ^ 2) (overflow (m powr 1.7974)) =
           Finite (1.31175 * 10 ^ 2 * m powr 1.7974) \<and>
         0 < 1.31175 * 10 ^ 2 * m powr 1.7974"
proof (rule scaled_finite)
  show "(0::real) < 1.31175 * 10 ^ 2" by simp
  have m: "0 < m" "1 \<le> m" using assms(1) by simp_all
  show pos: "0 < m powr 1.7974" using m by simp
  have "m powr 1.7974 \<le> (10 ^ 170) powr 1.7974"
    using m assms(2) by (intro powr_mono2) simp_all
  also have "\<dots> \<le> ((10::real) ^ 170) powr (9 / 5)"
    by (intro powr_mono) simp_all
  also have "\<dots> = 10 ^ 306" by (rule powr_170)
  finally have b: "m powr 1.7974 \<le> 10 ^ 306" .
  have "(10::real) ^ 306 \<le> 10 ^ 308" by simp
  with b DBL_MAX_lower show "m powr 1.7974 \<le> DBL_MAX" by linarith
  have "1.31175 * 10 ^ 2 * m powr 1.7974 \<le> 1.31175 * 10 ^ 2 * 10 ^ 306"
    using b by simp
  moreover have "(1.31175::real) * 10 ^ 2 * 10 ^ 306 \<le> DBL_MAX"
    by (simp add: DBL_MAX_def)
  ultimately show "1.31175 * 10 ^ 2 * m powr 1.7974 \<le> DBL_MAX" by linarith
qed


text \<open>
  Above 0.12 and off the boundaries the mass is inside one segment, and the fit is that
  segment's branch: a positive value, and a finite one unless the mass is above
  \<open>10 ^ 170\<close> in the last segment.
\<close>

lemma luminosity_fit_inside:
  fixes m :: real
  assumes "0.12 < m" "m \<notin> segment_boundaries"
  shows "strictly_positive (luminosity_fit m) \<and>
         (m \<le> 10 ^ 170 \<longrightarrow> (\<exists>x. luminosity_fit m = Finite x \<and> 0 < x))"
proof -
  have pos: "0 < m powr e" for e
    using assms(1) by simp
  have ne: "m \<noteq> 0.24" "m \<noteq> 0.56" "m \<noteq> 0.70" "m \<noteq> 0.91" "m \<noteq> 1.37" "m \<noteq> 2.07"
       "m \<noteq> 3.72" "m \<noteq> 10.0" "m \<noteq> 20.2"
    using assms(2) by (simp_all add: segment_boundaries_def)
  let ?P = "strictly_positive (luminosity_fit m) \<and>
            (m \<le> 10 ^ 170 \<longrightarrow> (\<exists>x. luminosity_fit m = Finite x \<and> 0 < x))"
  have s10: ?P if "20.2 < m"
  proof -
    have eq: "luminosity_fit m = scaled (1.31175 * 10 ^ 2) (overflow (m powr 1.7974))"
      using that by (simp add: luminosity_fit_def)
    have "strictly_positive (scaled (1.31175 * 10 ^ 2) (overflow (m powr 1.7974)))"
      by (rule scaled_positive) (use assms(1) in simp_all)
    moreover have "\<exists>x. scaled (1.31175 * 10 ^ 2) (overflow (m powr 1.7974)) = Finite x \<and> 0 < x"
      if "m \<le> 10 ^ 170"
      using branch_finite_top [OF \<open>20.2 < m\<close> that] by blast
    ultimately show ?thesis by (simp only: eq) blast
  qed
  have s9: ?P if "10.0 < m"
  proof (cases "m < 20.2")
    case True
    then have eq: "luminosity_fit m = scaled (9.73664) (overflow (m powr 2.6620))"
      using that by (simp add: luminosity_fit_def)
    have "scaled (9.73664) (overflow (m powr 2.6620)) = Finite (9.73664 * m powr 2.6620) \<and>
          0 < 9.73664 * m powr 2.6620"
      using True assms(1) by (intro branch_finite_small) simp_all
    then have f: "\<exists>x. luminosity_fit m = Finite x \<and> 0 < x"
      unfolding eq by blast
    then have "strictly_positive (luminosity_fit m)" by (rule finite_positive)
    with f show ?thesis by blast
  next
    case False
    then have "20.2 < m" using ne(9) by simp
    then show ?thesis by (rule s10)
  qed
  have s8: ?P if "3.72 < m"
  proof (cases "m < 10.0")
    case True
    then have eq: "luminosity_fit m = scaled (6.99075 / 10) (overflow (m powr 3.8058))"
      using that by (simp add: luminosity_fit_def)
    have "scaled (6.99075 / 10) (overflow (m powr 3.8058)) = Finite (6.99075 / 10 * m powr 3.8058) \<and>
          0 < 6.99075 / 10 * m powr 3.8058"
      using True assms(1) by (intro branch_finite_small) simp_all
    then have f: "\<exists>x. luminosity_fit m = Finite x \<and> 0 < x"
      unfolding eq by blast
    then have "strictly_positive (luminosity_fit m)" by (rule finite_positive)
    with f show ?thesis by blast
  next
    case False
    then have "10.0 < m" using ne(8) by simp
    then show ?thesis by (rule s9)
  qed
  have s7: ?P if "2.07 < m"
  proof (cases "m < 3.72")
    case True
    then have eq: "luminosity_fit m = scaled (6.49335 / 10 ^ 2) (overflow (m powr 5.6147))"
      using that by (simp add: luminosity_fit_def)
    have "scaled (6.49335 / 10 ^ 2) (overflow (m powr 5.6147)) = Finite (6.49335 / 10 ^ 2 * m powr 5.6147) \<and>
          0 < 6.49335 / 10 ^ 2 * m powr 5.6147"
      using True assms(1) by (intro branch_finite_small) simp_all
    then have f: "\<exists>x. luminosity_fit m = Finite x \<and> 0 < x"
      unfolding eq by blast
    then have "strictly_positive (luminosity_fit m)" by (rule finite_positive)
    with f show ?thesis by blast
  next
    case False
    then have "3.72 < m" using ne(7) by simp
    then show ?thesis by (rule s8)
  qed
  have s6: ?P if "1.37 < m"
  proof (cases "m < 2.07")
    case True
    then have eq: "luminosity_fit m = scaled (9.66362 / 10 ^ 4) (overflow (m powr 11.410))"
      using that by (simp add: luminosity_fit_def)
    have "scaled (9.66362 / 10 ^ 4) (overflow (m powr 11.410)) = Finite (9.66362 / 10 ^ 4 * m powr 11.410) \<and>
          0 < 9.66362 / 10 ^ 4 * m powr 11.410"
      using True assms(1) by (intro branch_finite_small) simp_all
    then have f: "\<exists>x. luminosity_fit m = Finite x \<and> 0 < x"
      unfolding eq by blast
    then have "strictly_positive (luminosity_fit m)" by (rule finite_positive)
    with f show ?thesis by blast
  next
    case False
    then have "2.07 < m" using ne(6) by simp
    then show ?thesis by (rule s7)
  qed
  have s5: ?P if "0.91 < m"
  proof (cases "m < 1.37")
    case True
    then have eq: "luminosity_fit m = scaled (1.02477 / 10 ^ 4) (overflow (m powr 18.465))"
      using that by (simp add: luminosity_fit_def)
    have "scaled (1.02477 / 10 ^ 4) (overflow (m powr 18.465)) = Finite (1.02477 / 10 ^ 4 * m powr 18.465) \<and>
          0 < 1.02477 / 10 ^ 4 * m powr 18.465"
      using True assms(1) by (intro branch_finite_small) simp_all
    then have f: "\<exists>x. luminosity_fit m = Finite x \<and> 0 < x"
      unfolding eq by blast
    then have "strictly_positive (luminosity_fit m)" by (rule finite_positive)
    with f show ?thesis by blast
  next
    case False
    then have "1.37 < m" using ne(5) by simp
    then show ?thesis by (rule s6)
  qed
  have s4: ?P if "0.70 < m"
  proof (cases "m < 0.91")
    case True
    then have eq: "luminosity_fit m = scaled (2.38690 / 10 ^ 4) (overflow (m powr 27.199))"
      using that by (simp add: luminosity_fit_def)
    have "scaled (2.38690 / 10 ^ 4) (overflow (m powr 27.199)) = Finite (2.38690 / 10 ^ 4 * m powr 27.199) \<and>
          0 < 2.38690 / 10 ^ 4 * m powr 27.199"
      using True assms(1) by (intro branch_finite_small) simp_all
    then have f: "\<exists>x. luminosity_fit m = Finite x \<and> 0 < x"
      unfolding eq by blast
    then have "strictly_positive (luminosity_fit m)" by (rule finite_positive)
    with f show ?thesis by blast
  next
    case False
    then have "0.91 < m" using ne(4) by simp
    then show ?thesis by (rule s5)
  qed
  have s3: ?P if "0.56 < m"
  proof (cases "m < 0.70")
    case True
    then have eq: "luminosity_fit m = scaled (1.10021 / 10 ^ 6) (overflow (m powr 12.237))"
      using that by (simp add: luminosity_fit_def)
    have "scaled (1.10021 / 10 ^ 6) (overflow (m powr 12.237)) = Finite (1.10021 / 10 ^ 6 * m powr 12.237) \<and>
          0 < 1.10021 / 10 ^ 6 * m powr 12.237"
      using True assms(1) by (intro branch_finite_small) simp_all
    then have f: "\<exists>x. luminosity_fit m = Finite x \<and> 0 < x"
      unfolding eq by blast
    then have "strictly_positive (luminosity_fit m)" by (rule finite_positive)
    with f show ?thesis by blast
  next
    case False
    then have "0.70 < m" using ne(3) by simp
    then show ?thesis by (rule s4)
  qed
  have s2: ?P if "0.24 < m"
  proof (cases "m < 0.56")
    case True
    then have eq: "luminosity_fit m = scaled (9.11137 / 10 ^ 9) (overflow (m powr 3.8845))"
      using that by (simp add: luminosity_fit_def)
    have "scaled (9.11137 / 10 ^ 9) (overflow (m powr 3.8845)) = Finite (9.11137 / 10 ^ 9 * m powr 3.8845) \<and>
          0 < 9.11137 / 10 ^ 9 * m powr 3.8845"
      using True assms(1) by (intro branch_finite_small) simp_all
    then have f: "\<exists>x. luminosity_fit m = Finite x \<and> 0 < x"
      unfolding eq by blast
    then have "strictly_positive (luminosity_fit m)" by (rule finite_positive)
    with f show ?thesis by blast
  next
    case False
    then have "0.56 < m" using ne(2) by simp
    then show ?thesis by (rule s3)
  qed
  have s1: ?P if "0.12 < m"
  proof (cases "m < 0.24")
    case True
    then have eq: "luminosity_fit m = scaled (1.70294 * 10 ^ 16) (overflow (m powr 42.557))"
      using that by (simp add: luminosity_fit_def)
    have "scaled (1.70294 * 10 ^ 16) (overflow (m powr 42.557)) = Finite (1.70294 * 10 ^ 16 * m powr 42.557) \<and>
          0 < 1.70294 * 10 ^ 16 * m powr 42.557"
      using True assms(1) by (intro branch_finite_small) simp_all
    then have f: "\<exists>x. luminosity_fit m = Finite x \<and> 0 < x"
      unfolding eq by blast
    then have "strictly_positive (luminosity_fit m)" by (rule finite_positive)
    with f show ?thesis by blast
  next
    case False
    then have "0.24 < m" using ne(1) by simp
    then show ?thesis by (rule s2)
  qed
  show ?thesis using assms(1) by (rule s1)
qed


lemma luminosity_fit_low: "m \<le> 0.12 \<Longrightarrow> luminosity_fit m = Finite 0"
  by (simp add: luminosity_fit_def)

lemma luminosity_fit_boundary: "m \<in> segment_boundaries \<Longrightarrow> luminosity_fit m = Finite 0"
  unfolding segment_boundaries_def
  by (elim insertE emptyE) (simp_all add: luminosity_fit_def)

lemma luminosity_fit_samples:
  assumes "x \<in> {1, 2, 5, 15, 25}"
  shows "\<exists>y. luminosity_fit x = Finite y \<and> 0 < y"
proof -
  have "0.12 < x" "x \<notin> segment_boundaries" "x \<le> 10 ^ 170"
    using assms by (auto simp: segment_boundaries_def)
  then show ?thesis using luminosity_fit_inside by blast
qed

text \<open>
  At \<open>10 ^ 200\<close> solar masses, strictly inside the last segment, the power overflows and
  the fit returns \<open>inf\<close>, which is not finite.
\<close>

theorem luminosity_fit_overflows:
  "(20.2::real) < 10 ^ 200 \<and> luminosity_fit (10 ^ 200) = PosInf"
proof -
  have m: "(20.2::real) < 10 ^ 200" by simp
  have eq: "luminosity_fit (10 ^ 200) =
            scaled (1.31175 * 10 ^ 2) (overflow ((10 ^ 200) powr 1.7974))"
    by (simp add: luminosity_fit_def)
  have "((10::real) ^ 200) powr (8 / 5) \<le> (10 ^ 200) powr 1.7974"
    by (intro powr_mono) simp_all
  then have "(10::real) ^ 320 \<le> (10 ^ 200) powr 1.7974"
    by (simp only: powr_200)
  moreover have "(10::real) ^ 309 \<le> 10 ^ 320" by simp
  ultimately have "DBL_MAX < ((10::real) ^ 200) powr 1.7974"
    using DBL_MAX_upper by linarith
  then have "overflow (((10::real) ^ 200) powr 1.7974) = PosInf"
    by (simp only: overflow_def if_True)
  then have "luminosity_fit (10 ^ 200) = PosInf"
    by (simp only: eq scaled_def float_value.case)
  with m show ?thesis by blast
qed

text \<open>
  Claim C6, amended. \<open>luminosity_fit\<close> is strictly positive at every mass strictly inside
  one of the ten segments, that is above 0.12 and not on a boundary. The value is finite
  at every such mass up to \<open>10 ^ 170\<close> solar masses, so in the nine bounded segments and
  at 1, 2, 5, 15 and 25 solar masses; in the unbounded last segment the power overflows
  for larger masses and the value is \<open>inf\<close>. The fit is exactly zero at every mass at or
  below 0.12 and at each of the nine boundaries 0.24, 0.56, 0.70, 0.91, 1.37, 2.07, 3.72,
  10.0 and 20.2.
\<close>

theorem luminosity_fit_domain:
  "(0.12 < m \<and> m \<notin> {0.24, 0.56, 0.70, 0.91, 1.37, 2.07, 3.72, 10.0, 20.2}
      \<longrightarrow> strictly_positive (luminosity_fit m)) \<and>
   (0.12 < m \<and> m \<notin> {0.24, 0.56, 0.70, 0.91, 1.37, 2.07, 3.72, 10.0, 20.2} \<and> m \<le> 10 ^ 170
      \<longrightarrow> (\<exists>x. luminosity_fit m = Finite x \<and> 0 < x)) \<and>
   (m \<le> 0.12 \<or> m \<in> {0.24, 0.56, 0.70, 0.91, 1.37, 2.07, 3.72, 10.0, 20.2}
      \<longrightarrow> luminosity_fit m = Finite 0) \<and>
   (\<forall>x \<in> {1, 2, 5, 15, 25}. \<exists>y. luminosity_fit x = Finite y \<and> 0 < y)"
proof (intro conjI impI ballI)
  assume "0.12 < m \<and> m \<notin> {0.24, 0.56, 0.70, 0.91, 1.37, 2.07, 3.72, 10.0, 20.2}"
  then show "strictly_positive (luminosity_fit m)"
    unfolding segment_boundaries_def [symmetric]
    using luminosity_fit_inside by blast
next
  assume "0.12 < m \<and> m \<notin> {0.24, 0.56, 0.70, 0.91, 1.37, 2.07, 3.72, 10.0, 20.2} \<and> m \<le> 10 ^ 170"
  then show "\<exists>x. luminosity_fit m = Finite x \<and> 0 < x"
    unfolding segment_boundaries_def [symmetric]
    using luminosity_fit_inside by blast
next
  assume "m \<le> 0.12 \<or> m \<in> {0.24, 0.56, 0.70, 0.91, 1.37, 2.07, 3.72, 10.0, 20.2}"
  then show "luminosity_fit m = Finite 0"
    unfolding segment_boundaries_def [symmetric]
    using luminosity_fit_low luminosity_fit_boundary by blast
next
  fix x :: real
  assume "x \<in> {1, 2, 5, 15, 25}"
  then show "\<exists>y. luminosity_fit x = Finite y \<and> 0 < y" by (rule luminosity_fit_samples)
qed

text \<open>The fit at 5 solar masses, inside the eighth segment, at the boundary 0.24 and at 0.12.\<close>

theorem luminosity_fit_domain_witness:
  "(0.12::real) < 5 \<and> (5::real) \<notin> {0.24, 0.56, 0.70, 0.91, 1.37, 2.07, 3.72, 10.0, 20.2} \<and> (5::real) \<le> 10 ^ 170 \<and>
   strictly_positive (luminosity_fit 5) \<and>
   (\<exists>x. luminosity_fit 5 = Finite x \<and> 0 < x) \<and>
   luminosity_fit 0.24 = Finite 0 \<and> luminosity_fit 0.12 = Finite 0"
proof -
  have a: "(0.12::real) < 5 \<and> (5::real) \<notin> {0.24, 0.56, 0.70, 0.91, 1.37, 2.07, 3.72, 10.0, 20.2}"
    by simp
  have a': "(5::real) \<le> 10 ^ 170" by simp
  have b: "(0.24::real) \<in> {0.24, 0.56, 0.70, 0.91, 1.37, 2.07, 3.72, 10.0, 20.2}"
    by simp
  have c: "(0.12::real) \<le> 0.12"
    by simp
  from luminosity_fit_domain [of 5] a have p: "strictly_positive (luminosity_fit 5)" by blast
  from luminosity_fit_domain [of 5] a a' have f: "\<exists>x. luminosity_fit 5 = Finite x \<and> 0 < x"
    by blast
  from luminosity_fit_domain [of "0.24"] b have z: "luminosity_fit 0.24 = Finite 0" by blast
  from luminosity_fit_domain [of "0.12"] c have l: "luminosity_fit 0.12 = Finite 0" by blast
  show ?thesis
    using a a' p f z l by blast
qed

section \<open>The flags \<open>bright\<close> and \<open>disked\<close>\<close>

lemma main_assign_flags_map:
  "main_assign_flags stars =
   map (\<lambda>s. if 1.9 < stellar_mass s then s\<lparr>bright := True, disked := False\<rparr>
             else s\<lparr>bright := False, disked := True\<rparr>) stars"
  by (induction stars) (simp_all add: main_assign_flags_def Let_def not_less)

lemma main_assign_flags_exactly_one:
  "s \<in> set (main_assign_flags stars) \<Longrightarrow> bright s \<noteq> disked s"
  unfolding main_assign_flags_map by auto

text \<open>What the loop does to each star, position by position.\<close>

lemma sync_loop_pointwise:
  "sync_loop w stars = Inr stars' \<Longrightarrow>
   list_all2 (\<lambda>s t. star.key t = star.key s \<and> bright t = bright s \<and>
                (if disked s
                 then \<exists>j. g_disk_indices w (star.key s) = Some j \<and> j < length (g_disks w) \<and>
                          t = sync_star (g_disks w ! j) s \<and>
                          disked t = (\<not> dispersed (g_disks w ! j))
                 else t = s))
     stars stars'"
proof (induction stars arbitrary: stars')
  case Nil
  then show ?case by simp
next
  case (Cons s rest)
  show ?case
  proof (cases "disked s")
    case True
    with Cons.prems obtain j rest' where
      j: "g_disk_indices w (star.key s) = Some j" "j < length (g_disks w)" and
      r: "sync_loop w rest = Inr rest'" and
      s: "stars' = sync_star (g_disks w ! j) s # rest'"
      by (auto split: option.splits if_splits sum.splits)
    from Cons.IH [OF r] j s True show ?thesis
      by (simp add: sync_star_def)
  next
    case False
    with Cons.prems obtain rest' where
      r: "sync_loop w rest = Inr rest'" and s: "stars' = s # rest'"
      by (auto split: sum.splits)
    from Cons.IH [OF r] s False show ?thesis
      by simp
  qed
qed

lemma main_sync_stars_Inr:
  assumes "main_sync_stars w = Inr w'"
  shows "sync_loop w (g_stars w) = Inr (g_stars w')" "g_disks w' = g_disks w"
    "g_disk_indices w' = g_disk_indices w"
  using assms by (auto simp: main_sync_stars_def split: sum.splits)

text \<open>
  A star of one solar mass is classified as disked and not bright. When its disk is
  dispersed, the synchronisation after the integration clears \<open>disked\<close> and leaves
  \<open>bright\<close> false: neither flag holds.
\<close>

theorem flags_neither_after_dispersal:
  "map (\<lambda>s. (bright s, disked s)) (main_assign_flags [example_star]) = [(False, True)] \<and>
   map_sum id (\<lambda>w. map (\<lambda>s. (bright s, disked s)) (g_stars w))
     (main_sync_stars \<lparr>g_stars = main_assign_flags [example_star],
                       g_disks = [example_disk\<lparr>dispersed := True\<rparr>],
                       g_disk_indices = [7 \<mapsto> 0]\<rparr>) = Inr [(False, False)]"
  by (simp add: main_assign_flags_def main_sync_stars_def sync_star_def example_star_def
      example_disk_def)

text \<open>
  Claim C7, amended. After the classification exactly one of \<open>bright\<close> and \<open>disked\<close> holds
  for every star. The synchronisation after the integration changes no disk, leaves every
  star without the flag \<open>disked\<close> as it is, and for a star with the flag keeps the key and
  \<open>bright\<close> and sets \<open>disked\<close> to \<open>not dispersed\<close> of the star's own disk. So, when no star
  has both flags before it, no star has both after it, and exactly one flag holds after
  it for precisely the stars for which exactly one held before and whose disk, if they
  are disked, is not dispersed: the bright stars and the stars with an intact disk keep
  exactly one flag, and a star whose disk has dispersed has neither.
\<close>

theorem flags_after_synchronisation:
  "(\<forall>s \<in> set (main_assign_flags stars). bright s \<noteq> disked s) \<and>
   (main_sync_stars w = Inr w' \<longrightarrow>
      g_disks w' = g_disks w \<and> g_disk_indices w' = g_disk_indices w \<and>
      list_all2 (\<lambda>s t. star.key t = star.key s \<and> bright t = bright s \<and>
                   (if disked s
                    then \<exists>j. g_disk_indices w (star.key s) = Some j \<and> j < length (g_disks w) \<and>
                             t = sync_star (g_disks w ! j) s \<and>
                             disked t = (\<not> dispersed (g_disks w ! j))
                    else t = s))
        (g_stars w) (g_stars w')) \<and>
   (main_sync_stars w = Inr w' \<and> (\<forall>s \<in> set (g_stars w). \<not> (bright s \<and> disked s)) \<longrightarrow>
      list_all2 (\<lambda>s t. \<not> (bright t \<and> disked t) \<and>
                   (bright t \<noteq> disked t) =
                     ((bright s \<noteq> disked s) \<and>
                      \<not> (\<exists>j. disked s \<and> g_disk_indices w (star.key s) = Some j \<and>
                              dispersed (g_disks w ! j))))
        (g_stars w) (g_stars w'))"
proof (intro conjI impI ballI)
  fix s assume "s \<in> set (main_assign_flags stars)"
  then show "bright s \<noteq> disked s" by (rule main_assign_flags_exactly_one)
next
  assume a: "main_sync_stars w = Inr w'"
  show "g_disks w' = g_disks w" "g_disk_indices w' = g_disk_indices w"
    using main_sync_stars_Inr [OF a] by simp_all
  show "list_all2 (\<lambda>s t. star.key t = star.key s \<and> bright t = bright s \<and>
                   (if disked s
                    then \<exists>j. g_disk_indices w (star.key s) = Some j \<and> j < length (g_disks w) \<and>
                             t = sync_star (g_disks w ! j) s \<and>
                             disked t = (\<not> dispersed (g_disks w ! j))
                    else t = s))
        (g_stars w) (g_stars w')"
    using main_sync_stars_Inr(1) [OF a] by (rule sync_loop_pointwise)
next
  assume a: "main_sync_stars w = Inr w' \<and> (\<forall>s \<in> set (g_stars w). \<not> (bright s \<and> disked s))"
  then have run: "main_sync_stars w = Inr w'"
    and pre: "\<And>s. s \<in> set (g_stars w) \<Longrightarrow> \<not> (bright s \<and> disked s)"
    by blast+
  have p: "list_all2 (\<lambda>s t. s \<in> set (g_stars w) \<and>
                (star.key t = star.key s \<and> bright t = bright s \<and>
                (if disked s
                 then \<exists>j. g_disk_indices w (star.key s) = Some j \<and> j < length (g_disks w) \<and>
                          t = sync_star (g_disks w ! j) s \<and>
                          disked t = (\<not> dispersed (g_disks w ! j))
                 else t = s)))
     (g_stars w) (g_stars w')"
    using sync_loop_pointwise [OF main_sync_stars_Inr(1) [OF run]]
    by (simp add: list_all2_conv_all_nth)
  show "list_all2 (\<lambda>s t. \<not> (bright t \<and> disked t) \<and>
                   (bright t \<noteq> disked t) =
                     ((bright s \<noteq> disked s) \<and>
                      \<not> (\<exists>j. disked s \<and> g_disk_indices w (star.key s) = Some j \<and>
                              dispersed (g_disks w ! j))))
        (g_stars w) (g_stars w')"
    using p
  proof (rule list_all2_mono)
    fix s t
    assume h: "s \<in> set (g_stars w) \<and>
                (star.key t = star.key s \<and> bright t = bright s \<and>
                (if disked s
                 then \<exists>j. g_disk_indices w (star.key s) = Some j \<and> j < length (g_disks w) \<and>
                          t = sync_star (g_disks w ! j) s \<and>
                          disked t = (\<not> dispersed (g_disks w ! j))
                 else t = s))"
    then have nb: "\<not> (bright s \<and> disked s)" using pre by blast
    show "\<not> (bright t \<and> disked t) \<and>
          (bright t \<noteq> disked t) =
            ((bright s \<noteq> disked s) \<and>
             \<not> (\<exists>j. disked s \<and> g_disk_indices w (star.key s) = Some j \<and>
                     dispersed (g_disks w ! j)))"
    proof (cases "disked s")
      case True
      with h nb show ?thesis by auto
    next
      case False
      with h show ?thesis by auto
    qed
  qed
qed

text \<open>
  The three stars: the synchronisation leaves the bright star and the star with the intact
  disk with exactly one flag, and the star whose disk has dispersed with none.
\<close>

theorem flags_after_synchronisation_witness:
  "map_sum id (\<lambda>w. map (\<lambda>s. (bright s, disked s)) (g_stars w)) (main_sync_stars three_stars) =
     Inr [(False, False), (False, True), (True, False)] \<and>
   (\<exists>w'. main_sync_stars three_stars = Inr w' \<and>
      list_all2 (\<lambda>s t. \<not> (bright t \<and> disked t)) (g_stars three_stars) (g_stars w'))"
proof -
  have v: "map_sum id (\<lambda>w. map (\<lambda>s. (bright s, disked s)) (g_stars w))
             (main_sync_stars three_stars) =
           Inr [(False, False), (False, True), (True, False)]"
    by (simp add: three_stars_def main_assign_flags_def main_sync_stars_def sync_star_def
        example_star_def example_disk_def)
  then obtain w' where run: "main_sync_stars three_stars = Inr w'"
    by (cases "main_sync_stars three_stars") auto
  have pre: "\<forall>s \<in> set (g_stars three_stars). \<not> (bright s \<and> disked s)"
    using main_assign_flags_exactly_one by (auto simp: three_stars_def)
  from flags_after_synchronisation [of "[]" three_stars w'] run pre
  have "list_all2 (\<lambda>s t. \<not> (bright t \<and> disked t) \<and>
                   (bright t \<noteq> disked t) =
                     ((bright s \<noteq> disked s) \<and>
                      \<not> (\<exists>j. disked s \<and> g_disk_indices three_stars (star.key s) = Some j \<and>
                              dispersed (g_disks three_stars ! j))))
        (g_stars three_stars) (g_stars w')"
    by blast
  then have "list_all2 (\<lambda>s t. \<not> (bright t \<and> disked t)) (g_stars three_stars) (g_stars w')"
    by (rule list_all2_mono) blast
  with v run show ?thesis by blast
qed

section \<open>Encounters\<close>





lemma periastron_distance_Inr:
  assumes "periastron_distance G stars = Inr c"
  shows "2 \<le> length stars" "0 < G" "0 < mass (stars ! 0)" "0 < mass (stars ! 1)"
  using assms by (auto simp: periastron_distance_def split: if_splits)


lemma resolve_star_frame:
  assumes "resolve_star T c time e p i (stars, disks, calls) = Inr (stars', disks', calls')"
  shows "length stars' = length stars" "length disks' = length disks"
    "j \<noteq> i \<Longrightarrow> stars' ! j = stars ! j" "j \<noteq> i \<Longrightarrow> disks' ! j = disks ! j"
    "collisional_radius (stars' ! i) = 0.49 * c" "mass (stars' ! i) = mass (stars ! i)"
    "set calls \<subseteq> set calls'"
  using assms unfolding resolve_star_def
  by (auto simp: Let_def dispersal_bookkeeping_def split: if_splits option.splits)

lemma resolve_star_returns:
  assumes "i < length stars" "1 - i < length stars" "i < length disks"
    "0 < mass (stars ! i)" "0 < mass (stars ! (1 - i))"
  shows "\<exists>st. resolve_star T c time e p i (stars, disks, calls) = Inr st"
proof -
  have "1 - i \<noteq> i" by arith
  then show ?thesis
    using assms unfolding resolve_star_def
    by (auto simp: Let_def not_le split: option.splits)
qed

text \<open>What a round does to the star and the disk when the truncation radius is at most 0.1 au.\<close>

lemma resolve_star_dispersal:
  assumes run: "resolve_star T c time e p i (stars, disks, calls) = Inr (stars', disks', calls')"
    and d: "disks ! i = Some d"
    and tr: "tr = c * p * (mass (stars ! i) / mass (stars ! (1 - i))) powr e"
    and lt: "tr < disk.disk_radius d" and le: "tr \<le> 0.1"
  shows "calls' = calls @ [(d\<lparr>dispersed := True\<rparr>, tr)]"
    "disks' ! i = Some (T (d\<lparr>dispersed := True\<rparr>) tr)"
    "star.disk_mass (stars' ! i) = disk.disk_mass (T (d\<lparr>dispersed := True\<rparr>) tr)"
    "star.disk_radius (stars' ! i) = disk.disk_radius (T (d\<lparr>dispersed := True\<rparr>) tr)"
    "truncation_mass_loss (stars' ! i) = 0"
    "cumulative_truncation_mass_loss (stars' ! i) = cumulative_truncation_mass_loss (stars ! i)"
    "dispersal_time (stars' ! i) = time"
    "last_encounter (stars' ! i) = time"
proof -
  have ne: "1 - i \<noteq> i" by arith
  show "calls' = calls @ [(d\<lparr>dispersed := True\<rparr>, tr)]"
    "disks' ! i = Some (T (d\<lparr>dispersed := True\<rparr>) tr)"
    "star.disk_mass (stars' ! i) = disk.disk_mass (T (d\<lparr>dispersed := True\<rparr>) tr)"
    "star.disk_radius (stars' ! i) = disk.disk_radius (T (d\<lparr>dispersed := True\<rparr>) tr)"
    "truncation_mass_loss (stars' ! i) = 0"
    "cumulative_truncation_mass_loss (stars' ! i) = cumulative_truncation_mass_loss (stars ! i)"
    "dispersal_time (stars' ! i) = time"
    "last_encounter (stars' ! i) = time"
    using run d lt le ne unfolding resolve_star_def tr
    by (auto simp: Let_def dispersal_bookkeeping_def split: if_splits)
qed

text \<open>The two rounds of the loop, from a periastron distance inside the model.\<close>

lemma resolve_encounter_rounds:
  assumes "periastron_distance G [s0, s1] = Inr c"
  obtains stars1 disks1 calls1 stars2 disks2 calls2 where
    "resolve_star T c time e p 0 ([s0, s1], [D0, D1], []) = Inr (stars1, disks1, calls1)"
    "resolve_star T c time e p 1 (stars1, disks1, calls1) = Inr (stars2, disks2, calls2)"
    "resolve_encounter G T [s0, s1] [D0, D1] time e p = Inr (stars2, disks2, calls2)"
proof -
  from periastron_distance_Inr [OF assms] have m: "0 < mass s0" "0 < mass s1"
    by simp_all
  from resolve_star_returns [of 0 "[s0, s1]" "[D0, D1]" T c time e p "[]"] m
  obtain stars1 disks1 calls1
    where r0: "resolve_star T c time e p 0 ([s0, s1], [D0, D1], []) = Inr (stars1, disks1, calls1)"
    by (auto simp: )
  from resolve_star_frame [OF r0]
  have f: "length stars1 = 2" "length disks1 = 2" "stars1 ! 1 = s1" "mass (stars1 ! 0) = mass s0"
    by (simp_all del: One_nat_def)
  from resolve_star_returns [of 1 stars1 disks1 T c time e p calls1] f m
  obtain stars2 disks2 calls2
    where r1: "resolve_star T c time e p 1 (stars1, disks1, calls1) = Inr (stars2, disks2, calls2)"
    by auto
  have "resolve_encounter G T [s0, s1] [D0, D1] time e p = Inr (stars2, disks2, calls2)"
    using assms r0 r1 by (simp add: resolve_encounter_def)
  with r0 r1 show ?thesis by (rule that)
qed

lemma resolve_encounter_dispersal:
  assumes per: "periastron_distance G [s0, s1] = Inr c"
    and i: "i < 2" and d: "[D0, D1] ! i = Some d"
    and tr: "tr = c * p * (mass ([s0, s1] ! i) / mass ([s0, s1] ! (1 - i))) powr e"
    and lt: "tr < disk.disk_radius d" and le: "tr \<le> 0.1"
  shows "\<exists>stars' disks' calls.
     resolve_encounter G T [s0, s1] [D0, D1] time e p = Inr (stars', disks', calls) \<and>
     (d\<lparr>dispersed := True\<rparr>, tr) \<in> set calls \<and>
     disks' ! i = Some (T (d\<lparr>dispersed := True\<rparr>) tr) \<and>
     star.disk_mass (stars' ! i) = disk.disk_mass (T (d\<lparr>dispersed := True\<rparr>) tr) \<and>
     truncation_mass_loss (stars' ! i) = 0 \<and>
     cumulative_truncation_mass_loss (stars' ! i) =
       cumulative_truncation_mass_loss ([s0, s1] ! i) \<and>
     dispersal_time (stars' ! i) = time"
proof -
  from resolve_encounter_rounds [OF per, of T time e p D0 D1]
  obtain stars1 disks1 calls1 stars2 disks2 calls2 where
    r0: "resolve_star T c time e p 0 ([s0, s1], [D0, D1], []) = Inr (stars1, disks1, calls1)" and
    r1: "resolve_star T c time e p 1 (stars1, disks1, calls1) = Inr (stars2, disks2, calls2)" and
    re: "resolve_encounter G T [s0, s1] [D0, D1] time e p = Inr (stars2, disks2, calls2)"
    by blast
  note f0 = resolve_star_frame [OF r0] and f1 = resolve_star_frame [OF r1]
  from i consider "i = 0" | "i = 1" by arith
  then show ?thesis
  proof cases
    case 1
    have d0: "[D0, D1] ! 0 = Some d" using d 1 by simp
    have tr0: "tr = c * p * (mass ([s0, s1] ! 0) / mass ([s0, s1] ! (1 - 0))) powr e"
      using tr 1 by simp
    note k = resolve_star_dispersal [OF r0 d0 tr0 lt le]
    have same: "stars2 ! 0 = stars1 ! 0" "disks2 ! 0 = disks1 ! 0"
      using f1(3) [of 0] f1(4) [of 0] by simp_all
    have "(d\<lparr>dispersed := True\<rparr>, tr) \<in> set calls2"
      using k(1) f1(7) by auto
    then show ?thesis
      using re k same 1 by simp
  next
    case 2
    have s: "stars1 ! 1 = s1" "disks1 ! 1 = D1" "mass (stars1 ! 0) = mass s0"
      using f0(3) [of 1] f0(4) [of 1] f0(6) by simp_all
    have d1: "disks1 ! 1 = Some d" using d 2 s by simp
    have tr1: "tr = c * p * (mass (stars1 ! 1) / mass (stars1 ! (1 - 1))) powr e"
      using tr 2 s by simp
    note k = resolve_star_dispersal [OF r1 d1 tr1 lt le]
    show ?thesis
      using re k s 2 by simp
  qed
qed

lemma resolve_encounter_collisional_radius:
  assumes per: "periastron_distance G [s0, s1] = Inr c"
  shows "\<exists>stars' disks' calls.
     resolve_encounter G T [s0, s1] [D0, D1] time e p = Inr (stars', disks', calls) \<and>
     length stars' = 2 \<and>
     collisional_radius (stars' ! 0) = 0.49 * c \<and> collisional_radius (stars' ! 1) = 0.49 * c"
proof -
  from resolve_encounter_rounds [OF per, of T time e p D0 D1]
  obtain stars1 disks1 calls1 stars2 disks2 calls2 where
    r0: "resolve_star T c time e p 0 ([s0, s1], [D0, D1], []) = Inr (stars1, disks1, calls1)" and
    r1: "resolve_star T c time e p 1 (stars1, disks1, calls1) = Inr (stars2, disks2, calls2)" and
    re: "resolve_encounter G T [s0, s1] [D0, D1] time e p = Inr (stars2, disks2, calls2)"
    by blast
  note f0 = resolve_star_frame [OF r0] and f1 = resolve_star_frame [OF r1]
  have "stars2 ! 0 = stars1 ! 0" using f1(3) [of 0] by simp
  then have "collisional_radius (stars2 ! 0) = 0.49 * c" using f0(5) by simp
  moreover have "collisional_radius (stars2 ! 1) = 0.49 * c" using f1(5) by simp
  moreover have "length stars2 = 2" using f0(1) f1(1) by simp
  ultimately show ?thesis using re by blast
qed










lemma vlength_axis:
  "vlength (x, 0, 0) = \<bar>x\<bar>" "vlength (0, x, 0) = \<bar>x\<bar>" "vlength (0, 0, x) = \<bar>x\<bar>"
  by (simp_all add: vlength_def)

lemma periastron_orbit_close:
  "periastron_distance 1
     [example_star\<lparr>mass := 0.075, position := (0.15, 0, 0), velocity := (0, 1, 0),
                   collisional_radius := R\<rparr>,
      example_star\<lparr>star.key := 8, mass := 0.075\<rparr>] = Inr 0.15"
  by (simp add: periastron_distance_def example_star_def Let_def
      vsub_def cross_def vlength_axis power_divide)

lemma periastron_orbit_unit:
  "periastron_distance 1
     [example_star\<lparr>mass := 1 / 2, position := (1, 0, 0), velocity := (0, 1, 0),
                   collisional_radius := R\<rparr>,
      example_star\<lparr>star.key := 8, mass := 1 / 2\<rparr>] = Inr 1"
  by (simp add: periastron_distance_def example_star_def Let_def
      vsub_def cross_def vlength_axis)



text \<open>
  Claim C2 (the code departs from it). When the truncation radius of a star with a disk is
  below the disk's radius and at most 0.1 au, \<open>resolve_encounter\<close> marks the disk
  dispersed and records the dispersal time, but the branch has no \<open>else\<close>: the disk's
  \<open>truncate\<close> is called all the same, on the disk already marked, and the star's disk mass
  after the call is the mass of the disk \<open>truncate\<close> returned, not zero. The mass lost is
  recorded after the disk mass was set to zero: \<open>truncation_mass_loss\<close> is 0 and
  \<open>cumulative_truncation_mass_loss\<close> is unchanged.
\<close>

theorem dispersal_branch_falls_through:
  assumes "periastron_distance G [s0, s1] = Inr c"
    and "i < 2" and "[D0, D1] ! i = Some d"
    and "tr = c * p * (mass ([s0, s1] ! i) / mass ([s0, s1] ! (1 - i))) powr e"
    and "tr < disk.disk_radius d" and "tr \<le> 0.1"
  shows "\<exists>stars' disks' calls.
     resolve_encounter G T [s0, s1] [D0, D1] time e p = Inr (stars', disks', calls) \<and>
     (d\<lparr>dispersed := True\<rparr>, tr) \<in> set calls \<and>
     disks' ! i = Some (T (d\<lparr>dispersed := True\<rparr>) tr) \<and>
     star.disk_mass (stars' ! i) = disk.disk_mass (T (d\<lparr>dispersed := True\<rparr>) tr) \<and>
     truncation_mass_loss (stars' ! i) = 0 \<and>
     cumulative_truncation_mass_loss (stars' ! i) =
       cumulative_truncation_mass_loss ([s0, s1] ! i) \<and>
     dispersal_time (stars' ! i) = time"
  using assms by (rule resolve_encounter_dispersal)

text \<open>
  Two stars of 0.075 solar masses on a circular orbit of 0.15 au: the truncation radius of
  the first star's disk of 30 au is 0.05 au. The disk is marked dispersed and then
  truncated to 0.05 au; the star's disk mass after the call is the truncated disk's, and
  no lost mass is recorded.
\<close>

theorem dispersal_branch_falls_through_witness:
  "periastron_distance 1 (orbiting_pair 0.075 0.15 1 4125) = Inr 0.15 \<and>
   (\<exists>stars' disks' calls.
      resolve_encounter 1 example_truncate (orbiting_pair 0.075 0.15 1 4125)
        [Some example_disk, None] 5 0.2 (1 / 3) = Inr (stars', disks', calls) \<and>
      (example_disk\<lparr>dispersed := True\<rparr>, 0.05) \<in> set calls \<and>
      star.disk_mass (stars' ! 0) = 0.1 * 0.05 / 30 \<and>
      truncation_mass_loss (stars' ! 0) = 0 \<and>
      dispersal_time (stars' ! 0) = 5)"
proof -
  let ?s0 = "example_star\<lparr>mass := 0.075, position := (0.15, 0, 0), velocity := (0, 1, 0),
                         collisional_radius := 4125\<rparr>"
  let ?s1 = "example_star\<lparr>star.key := 8, mass := 0.075\<rparr>"
  have per: "periastron_distance 1 [?s0, ?s1] = Inr 0.15"
    by (rule periastron_orbit_close)
  have i: "(0::nat) < 2" by simp
  have d: "[Some example_disk, None] ! 0 = Some example_disk" by simp
  have tr: "(0.05::real) = 0.15 * (1 / 3) * (mass ([?s0, ?s1] ! 0) / mass ([?s0, ?s1] ! (1 - 0))) powr 0.2"
    by simp
  have lt: "(0.05::real) < disk.disk_radius example_disk"
    by (simp add: example_disk_def)
  have le: "(0.05::real) \<le> 0.1" by simp
  have m: "disk.disk_mass (example_truncate (example_disk\<lparr>dispersed := True\<rparr>) 0.05) = 0.1 * 0.05 / 30"
    by (simp add: example_truncate_def example_disk_def)
  from dispersal_branch_falls_through [OF per i d tr lt le, of example_truncate 5] per m
  show ?thesis
    unfolding orbiting_pair_def by auto
qed

text \<open>
  Two stars of half a solar mass on a circular orbit of 1 au, detected because the second
  star has the initial collisional radius of 4125 au (0.02 pc); the first star's
  collisional radius is 0.1 au from an earlier encounter. After the call it is 0.49 au:
  it has grown.
\<close>

theorem collisional_radius_grows:
  "collisional_radius (orbiting_pair (1 / 2) 1 1 0.1 ! 0) = 0.1 \<and>
   map_sum id (\<lambda>st. map collisional_radius (fst st))
     (resolve_encounter 1 example_truncate (orbiting_pair (1 / 2) 1 1 0.1) [None, None] 5 0.2
        (1 / 3)) = Inr [0.49, 0.49]"
  using periastron_orbit_unit [of "0.1"]
  by (simp add: resolve_encounter_def resolve_star_def orbiting_pair_def)

text \<open>
  Claim C3, amended. After every call of \<open>resolve_encounter\<close> that computes a periastron
  distance \<open>c\<close>, the collisional radius of each of the two stars is \<open>0.49 * c\<close>, whatever it
  was before: it is at most its value before the call if and only if \<open>0.49 * c\<close> is.
\<close>

theorem collisional_radius_assigned:
  assumes "periastron_distance G [s0, s1] = Inr c"
  shows "\<exists>stars' disks' calls.
     resolve_encounter G T [s0, s1] [D0, D1] time e p = Inr (stars', disks', calls) \<and>
     length stars' = 2 \<and>
     collisional_radius (stars' ! 0) = 0.49 * c \<and> collisional_radius (stars' ! 1) = 0.49 * c \<and>
     (collisional_radius (stars' ! 0) \<le> collisional_radius s0) =
       (0.49 * c \<le> collisional_radius s0) \<and>
     (collisional_radius (stars' ! 1) \<le> collisional_radius s1) =
       (0.49 * c \<le> collisional_radius s1)"
  using resolve_encounter_collisional_radius [OF assms, of T D0 D1 time e p] by auto

text \<open>The same orbit with both stars at the initial collisional radius: both radii shrink.\<close>

theorem collisional_radius_assigned_witness:
  "periastron_distance 1 (orbiting_pair (1 / 2) 1 1 4125) = Inr 1 \<and>
   (\<exists>stars' disks' calls.
      resolve_encounter 1 example_truncate (orbiting_pair (1 / 2) 1 1 4125) [None, None] 5 0.2
        (1 / 3) = Inr (stars', disks', calls) \<and>
      collisional_radius (stars' ! 0) = 0.49 \<and> collisional_radius (stars' ! 1) = 0.49 \<and>
      collisional_radius (stars' ! 0) \<le> collisional_radius (orbiting_pair (1 / 2) 1 1 4125 ! 0))"
proof -
  let ?s0 = "example_star\<lparr>mass := 1 / 2, position := (1, 0, 0), velocity := (0, 1, 0),
                         collisional_radius := 4125\<rparr>"
  let ?s1 = "example_star\<lparr>star.key := 8, mass := 1 / 2\<rparr>"
  have per: "periastron_distance 1 [?s0, ?s1] = Inr 1"
    by (rule periastron_orbit_unit)
  from collisional_radius_assigned [OF per, of example_truncate None None 5 "0.2" "1 / 3"] per
  show ?thesis
    unfolding orbiting_pair_def by auto
qed




section \<open>Mass loss\<close>

lemma single_photoevaporation_mass_loss_eq:
  assumes "g_disk_indices w i = Some j" "j < length (g_disks w)"
    "star_with_key (g_stars w) i = Some s"
  shows "single_photoevaporation_mass_loss interp w i =
     Inr (interp (stellar_mass s) (star.total_radiation s) (disk.disk_gas_mass (g_disks w ! j))
            (disk.disk_radius (g_disks w ! j)) +
          (if EUV s then 2 * (1 / 10 ^ 9) * 3 * 4.12 * (cm_per_au / 10 ^ 14) * star.disk_radius s
           else 0),
          set_EUV i False w)"
  using assms by (simp add: single_photoevaporation_mass_loss_def Let_def)

text \<open>
  The EUV term of the example star at disk radii of 1 au and 4 au, with an interpolated
  rate of 0: the second is 4 times the first. A term proportional to the radius to the
  power 3/2 would be \<open>4 powr (3 / 2) = 8\<close> times the first.
\<close>

theorem euv_term_not_three_halves:
  "single_photoevaporation_mass_loss (constant_interp 0) (euv_globals 1) 7 =
     Inr (2 * (1 / 10 ^ 9) * 3 * 4.12 * (cm_per_au / 10 ^ 14), set_EUV 7 False (euv_globals 1)) \<and>
   single_photoevaporation_mass_loss (constant_interp 0) (euv_globals 4) 7 =
     Inr (4 * (2 * (1 / 10 ^ 9) * 3 * 4.12 * (cm_per_au / 10 ^ 14)),
          set_EUV 7 False (euv_globals 4)) \<and>
   4 * (2 * (1 / 10 ^ 9) * 3 * 4.12 * (cm_per_au / 10 ^ 14)) \<noteq>
     4 powr (3 / 2) * (2 * (1 / 10 ^ 9) * 3 * 4.12 * (cm_per_au / 10 ^ 14))"
proof -
  have a: "single_photoevaporation_mass_loss (constant_interp 0) (euv_globals 1) 7 =
     Inr (2 * (1 / 10 ^ 9) * 3 * 4.12 * (cm_per_au / 10 ^ 14), set_EUV 7 False (euv_globals 1))"
    by (simp add: single_photoevaporation_mass_loss_def euv_globals_def star_with_key_def
        example_star_def constant_interp_def Let_def)
  have b: "single_photoevaporation_mass_loss (constant_interp 0) (euv_globals 4) 7 =
     Inr (4 * (2 * (1 / 10 ^ 9) * 3 * 4.12 * (cm_per_au / 10 ^ 14)),
          set_EUV 7 False (euv_globals 4))"
    by (simp add: single_photoevaporation_mass_loss_def euv_globals_def star_with_key_def
        example_star_def constant_interp_def Let_def)
  have p: "(4::real) powr (3 / 2) = 8" by simp
  have c: "4 * (2 * (1 / 10 ^ 9) * 3 * 4.12 * (cm_per_au / 10 ^ 14)) \<noteq>
     4 powr (3 / 2) * (2 * (1 / 10 ^ 9) * 3 * 4.12 * (cm_per_au / 10 ^ 14))"
    unfolding p by (simp add: cm_per_au_def)
  from a b c show ?thesis by blast
qed

text \<open>
  Claim C4, amended. For a star with a disk, \<open>single_photoevaporation_mass_loss\<close> returns
  the interpolated FUV rate plus an EUV term. When the star's EUV flag is set the term is
  proportional to the star's disk radius itself, the first power and not the power 3/2:
  it is \<open>2 * 1E-9 * 3 * 4.12\<close> times the radius in units of \<open>1E14\<close> cm. When the flag is
  not set the term is exactly zero.
\<close>

theorem euv_term_linear:
  assumes "g_disk_indices w i = Some j" "j < length (g_disks w)"
    "star_with_key (g_stars w) i = Some s"
  shows "map_sum id fst (single_photoevaporation_mass_loss interp w i) =
     Inr (interp (stellar_mass s) (star.total_radiation s) (disk.disk_gas_mass (g_disks w ! j))
            (disk.disk_radius (g_disks w ! j)) +
          (if EUV s then 2 * (1 / 10 ^ 9) * 3 * 4.12 * (cm_per_au / 10 ^ 14) * star.disk_radius s
           else 0))"
  using single_photoevaporation_mass_loss_eq [OF assms, of interp] by simp

text \<open>The example star at 30 au with an interpolated rate of 5, flag set and flag not set.\<close>

theorem euv_term_linear_witness:
  "map_sum id fst (single_photoevaporation_mass_loss (constant_interp 5) (euv_globals 30) 7) =
     Inr (5 + 2 * (1 / 10 ^ 9) * 3 * 4.12 * (cm_per_au / 10 ^ 14) * 30) \<and>
   map_sum id fst (single_photoevaporation_mass_loss (constant_interp 5)
     (set_EUV 7 False (euv_globals 30)) 7) = Inr 5"
proof -
  let ?s = "example_star\<lparr>EUV := True, star.disk_radius := 30\<rparr>"
  have a: "g_disk_indices (euv_globals 30) 7 = Some 0" "0 < length (g_disks (euv_globals 30))"
    "star_with_key (g_stars (euv_globals 30)) 7 = Some ?s"
    by (simp_all add: euv_globals_def star_with_key_def example_star_def)
  let ?w = "set_EUV 7 False (euv_globals 30)"
  have b: "g_disk_indices ?w 7 = Some 0" "0 < length (g_disks ?w)"
    "star_with_key (g_stars ?w) 7 = Some (?s\<lparr>EUV := False\<rparr>)"
    by (simp_all add: euv_globals_def star_with_key_def example_star_def set_EUV_def)
  from euv_term_linear [OF a, of "constant_interp 5"] euv_term_linear [OF b, of "constant_interp 5"]
  show ?thesis
    by (simp add: constant_interp_def)
qed

section \<open>Evolution of the disks on one and on several backends\<close>


lemma remote_worker_code_length: "length (fst (remote_worker_code E h ds code dt)) = length ds"
proof (induction ds arbitrary: code)
  case Nil
  then show ?case by simp
next
  case (Cons d rest)
  then show ?case by (simp split: prod.splits) (metis fst_conv)
qed







end
